theory Spec2Isabelle
  imports Complex_Main "HOL-Library.Word"
begin

section \<open>Go strings\<close>

text \<open>
  A Go string is a sequence of bytes, UTF-8 text by convention: \<^typ>\<open>string\<close>.
  \<open>strings.HasPrefix\<close>, \<open>strings.HasSuffix\<close> and \<open>strings.Contains\<close> compare bytes.
\<close>

definition HasPrefix :: "string \<Rightarrow> string \<Rightarrow> bool" where
  "HasPrefix s prefix = (take (length prefix) s = prefix)"

definition HasSuffix :: "string \<Rightarrow> string \<Rightarrow> bool" where
  "HasSuffix s suffix =
     (length suffix \<le> length s \<and> drop (length s - length suffix) s = suffix)"

fun Contains :: "string \<Rightarrow> string \<Rightarrow> bool" where
  "Contains [] substr = (substr = [])"
| "Contains (c # s) substr = (HasPrefix (c # s) substr \<or> Contains s substr)"

text \<open>
  \<open>strings.TrimSpace\<close> removes leading and trailing white space as \<open>unicode.IsSpace\<close>
  defines it: the six ASCII characters U+0009..U+000D and U+0020, and U+0085, U+00A0,
  U+1680, U+2000..U+200A, U+2028, U+2029, U+202F, U+205F, U+3000, which are two or three
  bytes in UTF-8. A byte that starts no such sequence stops the trimming (an invalid byte
  decodes to U+FFFD, which is not a space).
\<close>

definition asciiSpace :: "char \<Rightarrow> bool" where
  "asciiSpace c = (c \<in> set [CHR 0x09, CHR 0x0A, CHR 0x0B, CHR 0x0C, CHR 0x0D, CHR 0x20])"

definition space2 :: "char \<Rightarrow> char \<Rightarrow> bool" where
  "space2 a b = (a = CHR 0xC2 \<and> (b = CHR 0x85 \<or> b = CHR 0xA0))"

definition space3 :: "char \<Rightarrow> char \<Rightarrow> char \<Rightarrow> bool" where
  "space3 a b c =
     ((a = CHR 0xE1 \<and> b = CHR 0x9A \<and> c = CHR 0x80) \<or>
      (a = CHR 0xE2 \<and> b = CHR 0x80 \<and>
         (c \<in> set [CHR 0x80, CHR 0x81, CHR 0x82, CHR 0x83, CHR 0x84, CHR 0x85, CHR 0x86,
                    CHR 0x87, CHR 0x88, CHR 0x89, CHR 0x8A, CHR 0xA8, CHR 0xA9, CHR 0xAF])) \<or>
      (a = CHR 0xE2 \<and> b = CHR 0x81 \<and> c = CHR 0x9F) \<or>
      (a = CHR 0xE3 \<and> b = CHR 0x80 \<and> c = CHR 0x80))"

text \<open>
  \<open>trimFront True\<close> drops the white space at the front of a string; \<open>trimFront False\<close>
  does the same on a reversed string, where the bytes of a rune come last byte first.
\<close>

fun trimFront :: "bool \<Rightarrow> string \<Rightarrow> string" where
  "trimFront fwd (a # b # c # s) =
     (if asciiSpace a then trimFront fwd (b # c # s)
      else if (if fwd then space2 a b else space2 b a) then trimFront fwd (c # s)
      else if (if fwd then space3 a b c else space3 c b a) then trimFront fwd s
      else a # b # c # s)"
| "trimFront fwd [a, b] =
     (if asciiSpace a then trimFront fwd [b]
      else if (if fwd then space2 a b else space2 b a) then []
      else [a, b])"
| "trimFront fwd [a] = (if asciiSpace a then [] else [a])"
| "trimFront fwd [] = []"

definition TrimSpace :: "string \<Rightarrow> string" where
  "TrimSpace s = rev (trimFront False (rev (trimFront True s)))"

text \<open>\<open>strings.Join\<close> and \<open>strconv.Itoa\<close>.\<close>

fun Join :: "string list \<Rightarrow> string \<Rightarrow> string" where
  "Join [] sep = []"
| "Join [a] sep = a"
| "Join (a # b # elems) sep = a @ sep @ Join (b # elems) sep"

definition digitChar :: "nat \<Rightarrow> char" where
  "digitChar d = ''0123456789'' ! d"

fun natDigits :: "nat \<Rightarrow> nat \<Rightarrow> string" where
  "natDigits 0 n = []"
| "natDigits (Suc fuel) n =
     (if n < 10 then [digitChar n] else natDigits fuel (n div 10) @ [digitChar (n mod 10)])"

definition Itoa :: "int \<Rightarrow> string" where
  "Itoa i = (if i < 0 then CHR ''-'' # natDigits (Suc (nat (- i))) (nat (- i))
             else natDigits (Suc (nat i)) (nat i))"

text \<open>
  \<open>strconv.ParseInt(s, 10, 64)\<close>: an optional sign, then one or more decimal digits;
  an empty string, any other byte, or a value outside the range of \<open>int64\<close> is an error.
\<close>

definition isDigit :: "char \<Rightarrow> bool" where
  "isDigit c = (48 \<le> (of_char c :: nat) \<and> (of_char c :: nat) \<le> 57)"

definition digitsValue :: "string \<Rightarrow> nat" where
  "digitsValue ds = foldl (\<lambda>n c. 10 * n + (of_char c - 48)) 0 ds"

definition ParseInt :: "string \<Rightarrow> 64 word option" where
  "ParseInt s =
     (let neg = (s \<noteq> [] \<and> hd s = CHR ''-'');
          ds = (if s \<noteq> [] \<and> (hd s = CHR ''+'' \<or> hd s = CHR ''-'') then tl s else s)
      in if ds = [] \<or> \<not> list_all isDigit ds then None
         else if neg then
           (if digitsValue ds \<le> 2 ^ 63 then Some (word_of_int (- int (digitsValue ds))) else None)
         else
           (if digitsValue ds < 2 ^ 63 then Some (word_of_int (int (digitsValue ds))) else None))"

section \<open>Library functions taken as parameters\<close>

text \<open>
  The package calls into \<open>unicode\<close>, \<open>regexp\<close>, \<open>encoding/base64\<close>, \<open>encoding/json\<close>
  and \<open>net\<close>. Their tables and engines are not part of the package; the model takes them
  as the flds of a record, and every theorem below holds for all of them.
\<close>

type_synonym rune = nat

record Event =
  X :: "64 word"
  Y :: "64 word"
  T :: "64 word"

record Lib =
  ToLower :: "string \<Rightarrow> string"
  runes :: "string \<Rightarrow> rune list"
  IsLetter :: "rune \<Rightarrow> bool"
  IsMark :: "rune \<Rightarrow> bool"
  IsLatin :: "rune \<Rightarrow> bool"
  IsSo :: "rune \<Rightarrow> bool"
  SplitHostPort :: "string \<Rightarrow> string option"
  DecodeString :: "string \<Rightarrow> string option"
  UnmarshalEvents :: "string \<Rightarrow> Event list option"
  FindAllString :: "string \<Rightarrow> string \<Rightarrow> string list"
  MatchString :: "string \<Rightarrow> string \<Rightarrow> bool"
  QuoteMeta :: "string \<Rightarrow> string"

text \<open>
  \<open>ToLower\<close> is \<open>strings.ToLower\<close>; \<open>runes s\<close> is the sequence of code points that
  \<open>for _, r := range s\<close> visits; \<open>IsLetter\<close>, \<open>IsMark\<close> are \<open>unicode.IsLetter\<close>,
  \<open>unicode.IsMark\<close>, and \<open>IsLatin\<close>, \<open>IsSo\<close> are \<open>unicode.Is\<close> on the tables
  \<open>unicode.Latin\<close> and \<open>unicode.So\<close>; \<open>SplitHostPort\<close> is the host that
  \<open>net.SplitHostPort\<close> returns, \<open>None\<close> for its error; \<open>DecodeString\<close> is
  \<open>base64.StdEncoding.DecodeString\<close>; \<open>UnmarshalEvents\<close> is \<open>json.Unmarshal\<close> into a
  slice of \<open>Event\<close>, \<open>None\<close> for its error; \<open>FindAllString pattern s\<close> and
  \<open>MatchString pattern s\<close> are the methods of \<open>regexp.MustCompile(pattern)\<close> (with
  \<open>n = -1\<close> for the first); \<open>QuoteMeta\<close> is \<open>regexp.QuoteMeta\<close>.
\<close>

section \<open>Behaviour trace validation\<close>

text \<open>
  \<open>float64\<close> is modelled by \<^typ>\<open>real\<close>: the conversion of an integer, \<open>math.Hypot\<close>
  and \<open>math.Sqrt\<close> are exact here, and rounding is not modelled. Go's \<open>int\<close> is taken at
  64 bits.
\<close>

definition float64 :: "64 word \<Rightarrow> real" where
  "float64 w = real_of_int (sint w)"

definition Hypot :: "real \<Rightarrow> real \<Rightarrow> real" where
  "Hypot p q = sqrt (p * p + q * q)"

text \<open>The loop over \<open>events[1:]\<close> that requires strictly increasing timestamps.\<close>

fun increasing :: "64 word \<Rightarrow> Event list \<Rightarrow> bool" where
  "increasing prev [] = True"
| "increasing prev (ev # evs) = (if sint (T ev) \<le> sint prev then False else increasing (T ev) evs)"

text \<open>
  The loop \<open>for i := 1; i < len(events); i++\<close>: \<open>prev\<close> is \<open>events[i-1]\<close>, the state is
  \<open>(totalDist, deltas)\<close>. The differences are taken on \<open>int\<close> and \<open>int64\<close>, where they
  wrap around, before the conversion.
\<close>

fun movement :: "Event \<Rightarrow> Event list \<Rightarrow> real \<times> real list \<Rightarrow> real \<times> real list" where
  "movement prev [] st = st"
| "movement prev (ev # evs) (totalDist, deltas) =
     (let dx = float64 (X ev - X prev);
          dy = float64 (Y ev - Y prev);
          dt = float64 (T ev - T prev)
      in movement ev evs (totalDist + Hypot dx dy, deltas @ [dt]))"

text \<open>The loop \<open>for _, d := range deltas\<close>, on the state \<open>(sum, sumsq)\<close>.\<close>

fun sumDeltas :: "real list \<Rightarrow> real \<times> real \<Rightarrow> real \<times> real" where
  "sumDeltas [] st = st"
| "sumDeltas (d # ds) (sm, sumsq) = sumDeltas ds (sm + d, sumsq + d * d)"

text \<open>
  \<open>checkEvents\<close> is \<open>checkBehavior\<close> from the test \<open>len(events) < 5\<close> on; with five
  events or more, \<open>events[0]\<close> and \<open>events[len(events)-1]\<close> exist.
\<close>

definition checkEvents :: "Event list \<Rightarrow> bool \<times> string" where
  "checkEvents events =
     (if length events < 5 then (False, ''behavior_not_enough_events'')
      else if \<not> increasing (T (hd events)) (tl events) then (False, ''behavior_non_monotonic_time'')
      else
        let dur = T (last events) - T (hd events) in
        if sint dur < 600 then (False, ''behavior_too_short'')
        else
          let (totalDist, deltas) = movement (hd events) (tl events) (0, []) in
          if totalDist < 40 then (False, ''behavior_low_movement'')
          else
            let (sm, sumsq) = sumDeltas deltas (0, 0);
                mean = sm / real (length deltas)
            in if mean > 0 \<and> sqrt (sumsq / real (length deltas) - mean * mean) < 10
               then (False, ''behavior_low_timing_variance'')
               else (True, ''''))"

definition checkBehavior :: "'a Lib_scheme \<Rightarrow> string \<Rightarrow> bool \<times> string" where
  "checkBehavior L encoded =
     (if encoded = '''' then (False, ''missing_behavior'')
      else case DecodeString L encoded of
        None \<Rightarrow> (False, ''behavior_decode_error'')
      | Some decoded \<Rightarrow>
          if length decoded = 0 then (False, ''behavior_decode_error'')
          else (case UnmarshalEvents L decoded of
                  None \<Rightarrow> (False, ''behavior_not_enough_events'')
                | Some events \<Rightarrow> checkEvents events))"

section \<open>Requests, configuration and the engine\<close>

text \<open>
  The parts of \<open>*http.Request\<close> that the package reads. \<open>ParseFormFails\<close> says that
  \<open>r.ParseForm()\<close> returns an error; \<open>Header\<close> is \<open>r.Header.Get\<close>; \<open>Path\<close> is
  \<open>r.URL.Path\<close>; \<open>Query\<close> is \<open>r.URL.Query().Get\<close>; \<open>Form\<close> is \<open>r.Form\<close> after
  parsing, a map from a key to its values, listed in the order in which \<open>range\<close> visits
  it; \<open>Cookie name\<close> is the value of the cookie that \<open>r.Cookie(name)\<close> returns, \<open>None\<close>
  for \<open>http.ErrNoCookie\<close>.
\<close>

record Request =
  ParseFormFails :: bool
  RemoteAddr :: string
  Header :: "string \<Rightarrow> string"
  Host :: string
  Method :: string
  Path :: string
  Query :: "string \<Rightarrow> string"
  Form :: "(string \<times> string list) list"
  Cookie :: "string \<Rightarrow> string option"

definition FormValue :: "Request \<Rightarrow> string \<Rightarrow> string" where
  "FormValue r key = (case map_of (Form r) key of Some (v # vs) \<Rightarrow> v | _ \<Rightarrow> '''')"

text \<open>
  \<open>SkipIf\<close> is \<open>None\<close> for a nil function; the callback returns \<open>None\<close> when it panics.
  A \<open>time.Duration\<close> is a number of nanoseconds.
\<close>

record Config =
  ShowBadge :: bool
  BadgeMessage :: string
  RateLimitTTL :: int
  RateLimitMax :: int
  EnableStorage :: bool
  DBPath :: string
  BlockThreshold :: int
  SkipPaths :: "string list"
  SkipIf :: "(Request \<Rightarrow> bool option) option"

text \<open>The two tables of the database that the engine reads.\<close>

record DB =
  captcha_config :: "string \<rightharpoonup> string"
  spam_keywords :: "string list"

text \<open>A \<open>time.Time\<close> is a number of nanoseconds since the epoch.\<close>

type_synonym Time = int

record Captcha =
  cfg :: Config
  fieldName :: string
  db :: "DB option"
  rateMap :: "string \<Rightarrow> Time list"

definition Minute :: int where
  "Minute = 60 * 1000000000"

definition defaultKeywords :: "string list" where
  "defaultKeywords =
     [''earn'', ''money'', ''cash'', ''crypto'', ''bitcoin'', ''forex'', ''seo'', ''backlink'',
      ''guest post'', ''sponsor'', ''telegram'', ''whatsapp'', ''casino'', ''bet'', ''loan'',
      ''payday'', ''work from home'', ''adult'', ''porn'', ''viagra'', ''sex'', ''xxx'',
      ''escort'', ''nft'', ''investment'', ''binary options'', ''cheap'', ''discount'',
      ''limited offer'', ''promo'', ''marketing'', ''followers'', ''likes'']"

text \<open>
  \<open>randSeq n\<close>, with \<open>draw i\<close> the number that the \<open>i\<close>-th call of \<open>rand.Intn\<close> returns.
\<close>

definition letters :: string where
  "letters = ''abcdefghijklmnopqrstuvwxyz0123456789''"

definition randSeq :: "(nat \<Rightarrow> nat) \<Rightarrow> nat \<Rightarrow> string" where
  "randSeq draw n = map (\<lambda>i. letters ! (draw i mod length letters)) [0..<n]"

text \<open>
  The statements that \<open>New\<close> runs on the opened database: the tables are created if they
  are missing, \<open>latin_only\<close> is inserted unless the key exists, and each default keyword
  is inserted unless it is there already.
\<close>

definition seed :: "DB \<Rightarrow> DB" where
  "seed d =
     \<lparr>captcha_config =
        (if captcha_config d ''latin_only'' = None
         then (captcha_config d)(''latin_only'' \<mapsto> ''1'') else captcha_config d),
      spam_keywords =
        foldl (\<lambda>ks kw. if kw \<in> set ks then ks else ks @ [kw]) (spam_keywords d) defaultKeywords\<rparr>"

text \<open>
  \<open>New cfg draw stored\<close>: \<open>stored\<close> is what the database file holds when it is opened,
  \<open>None\<close> when \<open>sql.Open\<close> returns an error.
\<close>

definition New :: "Config \<Rightarrow> (nat \<Rightarrow> nat) \<Rightarrow> DB option \<Rightarrow> Captcha" where
  "New cfg0 draw stored =
     (let cfg1 = (if RateLimitTTL cfg0 = 0 then cfg0\<lparr>RateLimitTTL := 1 * Minute\<rparr> else cfg0);
          cfg2 = (if RateLimitMax cfg1 = 0 then cfg1\<lparr>RateLimitMax := 5\<rparr> else cfg1);
          cfg3 = (if BlockThreshold cfg2 = 0 then cfg2\<lparr>BlockThreshold := - 5\<rparr> else cfg2)
      in \<lparr>cfg = cfg3,
          fieldName = ''extra_'' @ randSeq draw 6,
          db = (if EnableStorage cfg3 then map_option seed stored else None),
          rateMap = (\<lambda>ip. [])\<rparr>)"

definition threshold :: "Captcha \<Rightarrow> int" where
  "threshold c = (if BlockThreshold (cfg c) = 0 then - 5 else BlockThreshold (cfg c))"

definition getConfigBool :: "'a Lib_scheme \<Rightarrow> Captcha \<Rightarrow> string \<Rightarrow> bool \<Rightarrow> bool" where
  "getConfigBool L c key def =
     (case db c of
        None \<Rightarrow> def
      | Some d \<Rightarrow>
          (case captcha_config d key of
             None \<Rightarrow> def
           | Some v \<Rightarrow>
               (let s = TrimSpace (ToLower L v)
                in s = ''1'' \<or> s = ''true'' \<or> s = ''yes'' \<or> s = ''on'')))"

definition getSpamKeywords :: "Captcha \<Rightarrow> string list" where
  "getSpamKeywords c =
     (case db c of
        None \<Rightarrow> defaultKeywords
      | Some d \<Rightarrow> if length (spam_keywords d) = 0 then defaultKeywords else spam_keywords d)"

definition isLatinOnlyText :: "'a Lib_scheme \<Rightarrow> string \<Rightarrow> bool" where
  "isLatinOnlyText L s =
     list_all (\<lambda>r. \<not> ((IsLetter L r \<or> IsMark L r) \<and> \<not> IsLatin L r)) (runes L s)"

definition formIsLatinOnly :: "'a Lib_scheme \<Rightarrow> Captcha \<Rightarrow> Request \<Rightarrow> bool" where
  "formIsLatinOnly L c r =
     list_all (\<lambda>(k, vals). k = fieldName c \<or> list_all (isLatinOnlyText L) vals) (Form r)"

subsection \<open>Bypass rules\<close>

fun matchSkipPaths :: "string \<Rightarrow> string list \<Rightarrow> bool" where
  "matchSkipPaths p [] = False"
| "matchSkipPaths p (pref # prefs) =
     (if pref = '''' then matchSkipPaths p prefs
      else if HasPrefix p pref then True
      else matchSkipPaths p prefs)"

text \<open>
  The deferred \<open>recover()\<close> is installed when \<open>SkipIf\<close> is not nil. A panic in the
  callback unwinds \<open>shouldBypass\<close>; the deferred function stops it, and the function
  returns the zero values of its unnamed results, \<open>(false, "")\<close>.
\<close>

definition shouldBypass :: "'a Lib_scheme \<Rightarrow> Captcha \<Rightarrow> Request \<Rightarrow> bool \<times> string" where
  "shouldBypass L c r =
     (case (case SkipIf (cfg c) of None \<Rightarrow> Some False | Some f \<Rightarrow> f r) of
        None \<Rightarrow> (False, '''')
      | Some True \<Rightarrow> (True, ''bypass:custom'')
      | Some False \<Rightarrow>
          if length (SkipPaths (cfg c)) > 0 \<and> matchSkipPaths (Path r) (SkipPaths (cfg c))
          then (True, ''bypass:skip_path'')
          else if Method r = ''GET'' then
            (let code = TrimSpace (Query r ''code'');
                 state = TrimSpace (Query r ''state'');
                 pathLower = ToLower L (Path r);
                 ref = ToLower L (Header r ''Referer'')
             in if code \<noteq> '''' \<and> state \<noteq> '''' then (True, ''bypass:oauth_flow'')
                else if (Contains pathLower ''/oauth'' \<or> Contains pathLower ''/oauth2'' \<or>
                         Contains pathLower ''/auth/'' \<or> HasSuffix pathLower ''/callback'') \<and>
                        (code \<noteq> '''' \<or> state \<noteq> '''')
                then (True, ''bypass:oauth_flow'')
                else if Contains ref ''accounts.google.com'' \<or> Contains ref ''github.com/login'' \<or>
                        Contains ref ''github.com/session''
                then (True, ''bypass:oauth_referer'')
                else (False, ''''))
          else (False, ''''))"

subsection \<open>Score and reasons\<close>

text \<open>
  The local variables \<open>score\<close> and \<open>reasons\<close> (in \<open>analyzeFormContent\<close>: \<open>delta\<close> and
  \<open>reasons\<close>) as a pair; \<open>penalty n why\<close> is \<open>score -= n\<close> followed by
  \<open>reasons = append(reasons, why)\<close>.
\<close>

type_synonym acc = "int \<times> string list"

definition penalty :: "int \<Rightarrow> string \<Rightarrow> acc \<Rightarrow> acc" where
  "penalty n why a = (fst a - n, snd a @ [why])"

subsection \<open>Form content heuristics\<close>

definition urlRe :: string where
  "urlRe = ''(?i)'' @ [CHR 0x5C] @ ''b(?:https?://|www'' @ [CHR 0x5C] @ ''.)'' @ [CHR 0x5C] @ ''S+''"

definition emailRe :: string where
  "emailRe = ''^[^@'' @ [CHR 0x5C] @ ''s]+@[^@'' @ [CHR 0x5C] @ ''s]+'' @ [CHR 0x5C] @
             ''.[^@'' @ [CHR 0x5C] @ ''s]+$''"

definition isSpecialPunct :: "rune \<Rightarrow> bool" where
  "isSpecialPunct r = (r \<in> set (map of_char ''!?*&_-''))"

text \<open>The loop of \<open>hasRepeatedPunct\<close> on the state \<open>(prev, count, hasPrev)\<close>.\<close>

fun repeatLoop :: "rune list \<Rightarrow> rune \<Rightarrow> nat \<Rightarrow> bool \<Rightarrow> bool" where
  "repeatLoop [] prev count hasPrev = False"
| "repeatLoop (r # rs) prev count hasPrev =
     (if hasPrev \<and> r = prev \<and> isSpecialPunct r
      then (if count + 1 \<ge> 4 then True else repeatLoop rs r (count + 1) True)
      else repeatLoop rs r 0 True)"

definition hasRepeatedPunct :: "'a Lib_scheme \<Rightarrow> string \<Rightarrow> bool" where
  "hasRepeatedPunct L s = repeatLoop (runes L s) 0 0 False"

text \<open>
  The body of the loop \<open>for k := range r.Form\<close>; \<open>flds\<close> is the Go map \<open>fields\<close> from strings to
  strings, which reads as the empty string at a missing key.
\<close>

definition classify ::
  "'a Lib_scheme \<Rightarrow> Request \<Rightarrow> (string \<Rightarrow> string) \<Rightarrow> string \<Rightarrow> (string \<Rightarrow> string)" where
  "classify L r flds k =
     (let v = FormValue r k;
          kl = ToLower L k
      in if kl = ''name'' \<or> kl = ''full_name'' \<or> kl = ''fullname'' \<or> kl = ''username''
         then flds(''name'' := v)
         else if kl = ''email'' then flds(''email'' := v)
         else if kl = ''website'' \<or> kl = ''url'' \<or> kl = ''site'' then flds(''website'' := v)
         else if kl = ''message'' \<or> kl = ''msg'' \<or> kl = ''comment'' \<or> kl = ''content'' \<or>
                 kl = ''bio'' \<or> kl = ''body''
         then flds(''message'' := flds ''message'' @ [CHR 0x0A] @ v)
         else flds)"

text \<open>The checks of \<open>analyzeFormContent\<close>, one definition for each, in the order of the source.\<close>

definition linksInMessage :: "string list \<Rightarrow> acc \<Rightarrow> acc" where
  "linksInMessage links a =
     (let n = int (length links)
      in if n > 0 then
           (let pen = - 2 - min (n - 1) 2
            in (fst a + pen, snd a @ [''links_in_message:'' @ Itoa n]))
         else a)"

definition kwRe :: "string list \<Rightarrow> string" where
  "kwRe parts = ''(?i)('' @ Join parts ''|'' @ '')''"

definition spamKeywords :: "'a Lib_scheme \<Rightarrow> Captcha \<Rightarrow> string \<Rightarrow> acc \<Rightarrow> acc" where
  "spamKeywords L c msg a =
     (let kws = getSpamKeywords c
      in if length kws > 0 then
           (let parts = map (QuoteMeta L) (filter (\<lambda>kw. kw \<noteq> '''') (map TrimSpace kws))
            in if length parts > 0 \<and> MatchString L (kwRe parts) msg
               then penalty 3 ''spam_keywords'' a else a)
         else a)"

definition emojiOveruse :: "'a Lib_scheme \<Rightarrow> string \<Rightarrow> acc \<Rightarrow> acc" where
  "emojiOveruse L msg a =
     (let emojiCount =
            int (length (filter (\<lambda>r. IsSo L r \<or> (0x1F300 \<le> r \<and> r \<le> 0x1FAFF)) (runes L msg)));
          a1 = (if emojiCount \<ge> 5 then penalty 1 (''emoji_overuse:'' @ Itoa emojiCount) a else a)
      in if emojiCount \<ge> 12 then (fst a1 - 1, snd a1) else a1)"

definition repeatedPunct :: "'a Lib_scheme \<Rightarrow> string \<Rightarrow> acc \<Rightarrow> acc" where
  "repeatedPunct L msg a = (if hasRepeatedPunct L msg then penalty 1 ''repeated_punct'' a else a)"

definition nameContainsURL :: "'a Lib_scheme \<Rightarrow> string \<Rightarrow> acc \<Rightarrow> acc" where
  "nameContainsURL L name a =
     (if name \<noteq> '''' \<and> MatchString L urlRe name then penalty 2 ''name_contains_url'' a else a)"

definition websiteInvalid :: "'a Lib_scheme \<Rightarrow> string \<Rightarrow> acc \<Rightarrow> acc" where
  "websiteInvalid L website a =
     (if website \<noteq> '''' \<and> \<not> MatchString L urlRe website then penalty 1 ''website_invalid'' a
      else a)"

definition emailInvalid :: "'a Lib_scheme \<Rightarrow> string \<Rightarrow> acc \<Rightarrow> acc" where
  "emailInvalid L email a =
     (if email \<noteq> '''' \<and> \<not> MatchString L emailRe email then penalty 1 ''email_invalid'' a
      else a)"

definition shortMsgWithLink :: "'a Lib_scheme \<Rightarrow> string \<Rightarrow> string list \<Rightarrow> acc \<Rightarrow> acc" where
  "shortMsgWithLink L msg links a =
     (if length (runes L msg) < 15 \<and> length links > 0 then penalty 1 ''short_msg_with_link'' a
      else a)"

definition analyzeFormContent :: "'a Lib_scheme \<Rightarrow> Captcha \<Rightarrow> Request \<Rightarrow> int \<times> string list" where
  "analyzeFormContent L c r =
     (let flds = foldl (classify L r) (\<lambda>k. '''') (map fst (Form r));
          msg = TrimSpace (flds ''message'');
          name = TrimSpace (flds ''name'');
          email = TrimSpace (flds ''email'');
          website = TrimSpace (flds ''website'');
          links = FindAllString L urlRe msg;
          a1 = linksInMessage links (0, []);
          a2 = spamKeywords L c msg a1;
          a3 = emojiOveruse L msg a2;
          a4 = repeatedPunct L msg a3;
          a5 = nameContainsURL L name a4;
          a6 = websiteInvalid L website a5;
          a7 = emailInvalid L email a6
      in shortMsgWithLink L msg links a7)"

subsection \<open>CheckRequest\<close>

text \<open>
  \<open>CheckRequest\<close> is one function in the source. Each of its numbered blocks that changes
  \<open>score\<close> and \<open>reasons\<close> is a definition here, a function on the pair, and
  \<open>CheckRequest\<close> applies them in the order of the source: \<open>rateLimit\<close> (1),
  \<open>timestamp\<close> (3), \<open>jsToken\<close> (4), \<open>behavior\<close> (5), \<open>uaMarker\<close> and \<open>referer\<close> (6),
  \<open>headless\<close> (7), \<open>acceptHeaders\<close> and \<open>secFetch\<close> (7b), \<open>jsCookie\<close> (8) and
  \<open>formContent\<close> (9).

  \<open>t.Sub(u)\<close> is the difference, brought into the range of \<open>time.Duration\<close>;
  \<open>t.UnixMilli()\<close> is an \<open>int64\<close>.
\<close>

definition Sub :: "Time \<Rightarrow> Time \<Rightarrow> int" where
  "Sub t u = max (- (2 ^ 63)) (min (2 ^ 63 - 1) (t - u))"

definition UnixMilli :: "Time \<Rightarrow> 64 word" where
  "UnixMilli t = word_of_int (t div 1000000)"

definition clientIP :: "'a Lib_scheme \<Rightarrow> Request \<Rightarrow> string" where
  "clientIP L r = (case SplitHostPort L (RemoteAddr r) of None \<Rightarrow> RemoteAddr r | Some host \<Rightarrow> host)"

text \<open>The rate limiter: the loop over \<open>hits\<close>, then \<open>recent = append(recent, now)\<close>.\<close>

definition recentHits :: "Captcha \<Rightarrow> Time \<Rightarrow> Time list \<Rightarrow> Time list" where
  "recentHits c now hits = filter (\<lambda>t. Sub now t < RateLimitTTL (cfg c)) hits @ [now]"

definition rateLimit :: "Captcha \<Rightarrow> Time list \<Rightarrow> acc \<Rightarrow> acc" where
  "rateLimit c recent a =
     (if int (length recent) > RateLimitMax (cfg c) then penalty 3 ''rate_limit_exceeded'' a else a)"

definition timestamp :: "Request \<Rightarrow> Time \<Rightarrow> acc \<Rightarrow> acc" where
  "timestamp r now a =
     (let tsStr = FormValue r ''ts''
      in if tsStr \<noteq> '''' then
           (case ParseInt tsStr of
              None \<Rightarrow> penalty 3 ''too_fast_submit'' a
            | Some ts \<Rightarrow>
                if sint (UnixMilli now - ts) < 1500 then penalty 3 ''too_fast_submit'' a else a)
         else penalty 3 ''missing_ts'' a)"

definition jsToken :: "Request \<Rightarrow> acc \<Rightarrow> acc" where
  "jsToken r a =
     (if FormValue r ''js_token'' \<noteq> ''set_by_js'' then penalty 2 ''missing_js_token'' a else a)"

definition behavior :: "'a Lib_scheme \<Rightarrow> Request \<Rightarrow> acc \<Rightarrow> acc" where
  "behavior L r a =
     (case checkBehavior L (FormValue r ''behavior_data'') of
        (ok, why) \<Rightarrow>
          if \<not> ok then
            (if why \<noteq> '''' then penalty 3 (''behavior:'' @ why) a
             else penalty 3 ''behavior_invalid'' a)
          else a)"

definition uaMarker :: "'a Lib_scheme \<Rightarrow> string \<Rightarrow> acc \<Rightarrow> acc" where
  "uaMarker L ua a =
     (if ua = '''' \<or> \<not> Contains (ToLower L ua) ''mozilla'' then penalty 2 ''ua_suspicious'' a
      else a)"

definition referer :: "Request \<Rightarrow> acc \<Rightarrow> acc" where
  "referer r a =
     (let ref = Header r ''Referer''
      in if ref = '''' then penalty 1 ''missing_referer'' a
         else if Host r \<noteq> '''' \<and> \<not> Contains ref (Host r) then penalty 1 ''cross_site_referer'' a
         else a)"

definition headless :: "string \<Rightarrow> acc \<Rightarrow> acc" where
  "headless ua a =
     (if Contains ua ''HeadlessChrome'' \<or>
         Contains ua ''PhantomJS'' \<or>
         Contains ua ''SlimerJS'' \<or>
         Contains ua ''Electron'' \<or>
         Contains ua ''Puppeteer'' \<or>
         ua = '''' \<or>
         Contains ua ''Go-http-client'' \<or>
         Contains ua ''curl'' \<or>
         Contains ua ''python-requests''
      then penalty 4 ''headless_or_scripted_ua'' a
      else a)"

definition acceptHeaders :: "Request \<Rightarrow> acc \<Rightarrow> acc" where
  "acceptHeaders r a =
     (if Header r ''Accept'' = '''' \<and> Header r ''Accept-Language'' = ''''
      then penalty 1 ''missing_accept_and_language'' a else a)"

definition secFetch :: "'a Lib_scheme \<Rightarrow> Request \<Rightarrow> string \<Rightarrow> acc \<Rightarrow> acc" where
  "secFetch L r ua a =
     (if Contains (ToLower L ua) ''chrome'' \<and> Header r ''Sec-Fetch-Site'' = '''' \<and>
         Header r ''Sec-Fetch-Mode'' = ''''
      then penalty 1 ''missing_sec_fetch_headers'' a else a)"

definition jsCookie :: "Request \<Rightarrow> acc \<Rightarrow> acc" where
  "jsCookie r a =
     (case Cookie r ''js_captcha'' of
        None \<Rightarrow> penalty 3 ''missing_js_cookie'' a
      | Some v \<Rightarrow> if v \<noteq> ''enabled'' then penalty 2 ''bad_js_cookie'' a else a)"

definition formContent :: "'a Lib_scheme \<Rightarrow> Captcha \<Rightarrow> Request \<Rightarrow> acc \<Rightarrow> acc" where
  "formContent L c r a =
     (case analyzeFormContent L c r of
        (delta, extra) \<Rightarrow> if delta \<noteq> 0 then (fst a + delta, snd a @ extra) else a)"

text \<open>
  What one call returns and does: the verdict, the arguments \<open>(ip, ua, score, reasons)\<close>
  of its call to \<open>c.log\<close> (\<open>None\<close> when it returns without logging), and the engine with
  its rate map updated.
\<close>

type_synonym LogCall = "string \<times> string \<times> int \<times> string list"

record Outcome =
  blocked :: bool
  logCall :: "LogCall option"
  engine :: Captcha

definition CheckRequest :: "'a Lib_scheme \<Rightarrow> Captcha \<Rightarrow> Request \<Rightarrow> Time \<Rightarrow> Outcome" where
  "CheckRequest L c r now =
     (if ParseFormFails r then \<lparr>blocked = True, logCall = None, engine = c\<rparr>
      else
        let ip = clientIP L r;
            ua = Header r ''User-Agent''
        in case shouldBypass L c r of
             (True, why) \<Rightarrow> \<lparr>blocked = False, logCall = Some (ip, ua, 0, [why]), engine = c\<rparr>
           | (False, why) \<Rightarrow>
               let recent = recentHits c now (rateMap c ip);
                   c' = c\<lparr>rateMap := (rateMap c)(ip := recent)\<rparr>;
                   a1 = rateLimit c recent (0, [])
               in if TrimSpace (FormValue r (fieldName c)) \<noteq> '''' then
                    \<lparr>blocked = True,
                     logCall = Some (ip, ua, fst a1, snd a1 @ [''hidden_field_filled'']),
                     engine = c'\<rparr>
                  else if getConfigBool L c ''latin_only'' False \<and> \<not> formIsLatinOnly L c r then
                    \<lparr>blocked = True,
                     logCall = Some (ip, ua, fst a1, snd a1 @ [''non_latin_detected'']),
                     engine = c'\<rparr>
                  else
                    let a2 = timestamp r now a1;
                        a3 = jsToken r a2;
                        a4 = behavior L r a3;
                        a5 = uaMarker L ua a4;
                        a6 = referer r a5;
                        a7 = headless ua a6;
                        a8 = acceptHeaders r a7;
                        a9 = secFetch L r ua a8;
                        a10 = jsCookie r a9;
                        a11 = formContent L c r a10
                    in \<lparr>blocked = (fst a11 \<le> threshold c),
                        logCall = Some (ip, ua, fst a11, snd a11),
                        engine = c'\<rparr>)"

section \<open>Events recorded by the client script\<close>

text \<open>
  \<open>static/js/gocaptcha.js\<close> pushes three shapes of object: \<open>{x, y, t}\<close> on a pointer
  movement, \<open>{key, t}\<close> on a key press and \<open>{click, t}\<close> on a click. \<open>json.Unmarshal\<close>
  fills the fields of \<open>Event\<close> that the object names and leaves the others at Go's zero
  value.
\<close>

datatype ClientEvent = Move "64 word" "64 word" "64 word" | Key "64 word" | Click "64 word"

fun toEvent :: "ClientEvent \<Rightarrow> Event" where
  "toEvent (Move x y t) = \<lparr>X = x, Y = y, T = t\<rparr>"
| "toEvent (Key t) = \<lparr>X = 0, Y = 0, T = t\<rparr>"
| "toEvent (Click t) = \<lparr>X = 0, Y = 0, T = t\<rparr>"

fun positional :: "ClientEvent \<Rightarrow> bool" where
  "positional (Move x y t) = True"
| "positional (Key t) = False"
| "positional (Click t) = False"

text \<open>
  The distance as the specification words it: between consecutive events, using only
  those that carry a position.
\<close>

definition eventDist :: "Event \<Rightarrow> Event \<Rightarrow> real" where
  "eventDist a b = Hypot (float64 (X b - X a)) (float64 (Y b - Y a))"

fun pathLength :: "Event list \<Rightarrow> real" where
  "pathLength (a # b # es) = eventDist a b + pathLength (b # es)"
| "pathLength [a] = 0"
| "pathLength [] = 0"

definition specDistance :: "ClientEvent list \<Rightarrow> real" where
  "specDistance tr = pathLength (map toEvent (filter positional tr))"

section \<open>Score and reasons of an evaluation\<close>

text \<open>The score and the reasons of an evaluation are the ones it hands to \<open>c.log\<close>.\<close>

definition score :: "Outcome \<Rightarrow> int" where
  "score out = (case logCall out of None \<Rightarrow> 0 | Some (ip, ua, s, rs) \<Rightarrow> s)"

definition reasons :: "Outcome \<Rightarrow> string list" where
  "reasons out = (case logCall out of None \<Rightarrow> [] | Some (ip, ua, s, rs) \<Rightarrow> rs)"

section \<open>Concrete requests\<close>

text \<open>
  The library functions on the ASCII text of the requests below: \<open>strings.ToLower\<close>, the
  iteration over runes and the letter classes are Go's on ASCII (which has no mark and no
  character of class So); \<open>regexp.QuoteMeta\<close> is the identity on letters and blanks; the
  decoders and the regular expressions are tabulated at the arguments that occur.
\<close>

definition lowerASCII :: "char \<Rightarrow> char" where
  "lowerASCII c =
     (case map_of (zip ''ABCDEFGHIJKLMNOPQRSTUVWXYZ'' ''abcdefghijklmnopqrstuvwxyz'') c of
        None \<Rightarrow> c
      | Some l \<Rightarrow> l)"

definition asciiLetter :: "rune \<Rightarrow> bool" where
  "asciiLetter r = ((65 \<le> r \<and> r \<le> 90) \<or> (97 \<le> r \<and> r \<le> 122))"

definition hostOf :: "string \<Rightarrow> string option" where
  "hostOf addr =
     (if CHR '':'' \<in> set addr
      then Some (rev (tl (dropWhile (\<lambda>c. c \<noteq> CHR '':'') (rev addr))))
      else None)"

definition goodTrace :: "Event list" where
  "goodTrace =
     [\<lparr>X = 120, Y = 300, T = 1700000001000\<rparr>,
      \<lparr>X = 150, Y = 300, T = 1700000001100\<rparr>,
      \<lparr>X = 180, Y = 300, T = 1700000001300\<rparr>,
      \<lparr>X = 210, Y = 300, T = 1700000001450\<rparr>,
      \<lparr>X = 240, Y = 300, T = 1700000001800\<rparr>,
      \<lparr>X = 270, Y = 300, T = 1700000002000\<rparr>]"

definition goodJSON :: string where
  \<open>goodJSON = ''[{"x":120,"y":300,"t":1700000001000},{"x":150,"y":300,"t":1700000001100},{"x":180,"y":300,"t":1700000001300},{"x":210,"y":300,"t":1700000001450},{"x":240,"y":300,"t":1700000001800},{"x":270,"y":300,"t":1700000002000}]''\<close>

definition goodBase64 :: string where
  "goodBase64 = ''W3sieCI6MTIwLCJ5IjozMDAsInQiOjE3MDAwMDAwMDEwMDB9LHsieCI6MTUwLCJ5IjozMDAsInQiOjE3MDAwMDAwMDExMDB9LHsieCI6MTgwLCJ5IjozMDAsInQiOjE3MDAwMDAwMDEzMDB9LHsieCI6MjEwLCJ5IjozMDAsInQiOjE3MDAwMDAwMDE0NTB9LHsieCI6MjQwLCJ5IjozMDAsInQiOjE3MDAwMDAwMDE4MDB9LHsieCI6MjcwLCJ5IjozMDAsInQiOjE3MDAwMDAwMDIwMDB9XQ==''"

text \<open>
  A trace that lasts 600 milliseconds, and a pointer at rest between a key press and a
  click, each with the JSON text that the client script makes of it and its base64.
\<close>

definition trace600 :: "Event list" where
  "trace600 =
     [\<lparr>X = 120, Y = 300, T = 1700000001000\<rparr>,
      \<lparr>X = 150, Y = 300, T = 1700000001100\<rparr>,
      \<lparr>X = 180, Y = 300, T = 1700000001300\<rparr>,
      \<lparr>X = 210, Y = 300, T = 1700000001450\<rparr>,
      \<lparr>X = 240, Y = 300, T = 1700000001600\<rparr>]"

definition trace600JSON :: string where
  \<open>trace600JSON = ''[{"x":120,"y":300,"t":1700000001000},{"x":150,"y":300,"t":1700000001100},{"x":180,"y":300,"t":1700000001300},{"x":210,"y":300,"t":1700000001450},{"x":240,"y":300,"t":1700000001600}]''\<close>

definition trace600Base64 :: string where
  "trace600Base64 = ''W3sieCI6MTIwLCJ5IjozMDAsInQiOjE3MDAwMDAwMDEwMDB9LHsieCI6MTUwLCJ5IjozMDAsInQiOjE3MDAwMDAwMDExMDB9LHsieCI6MTgwLCJ5IjozMDAsInQiOjE3MDAwMDAwMDEzMDB9LHsieCI6MjEwLCJ5IjozMDAsInQiOjE3MDAwMDAwMDE0NTB9LHsieCI6MjQwLCJ5IjozMDAsInQiOjE3MDAwMDAwMDE2MDB9XQ==''"

definition restingTrace :: "ClientEvent list" where
  "restingTrace =
     [Move 30 0 1700000001000,
      Key 1700000001100,
      Move 30 0 1700000001300,
      Click 1700000001450,
      Move 30 0 1700000001800]"

definition restingJSON :: string where
  \<open>restingJSON = ''[{"x":30,"y":0,"t":1700000001000},{"key":true,"t":1700000001100},{"x":30,"y":0,"t":1700000001300},{"click":true,"t":1700000001450},{"x":30,"y":0,"t":1700000001800}]''\<close>

definition restingBase64 :: string where
  "restingBase64 = ''W3sieCI6MzAsInkiOjAsInQiOjE3MDAwMDAwMDEwMDB9LHsia2V5Ijp0cnVlLCJ0IjoxNzAwMDAwMDAxMTAwfSx7IngiOjMwLCJ5IjowLCJ0IjoxNzAwMDAwMDAxMzAwfSx7ImNsaWNrIjp0cnVlLCJ0IjoxNzAwMDAwMDAxNDUwfSx7IngiOjMwLCJ5IjowLCJ0IjoxNzAwMDAwMDAxODAwfV0=''"

definition threeLinks :: string where
  "threeLinks = ''see http://a.example https://b.example www.c.example''"

definition testLib :: Lib where
  "testLib =
     \<lparr>ToLower = map lowerASCII,
      runes = map of_char,
      IsLetter = asciiLetter,
      IsMark = (\<lambda>r. False),
      IsLatin = asciiLetter,
      IsSo = (\<lambda>r. False),
      SplitHostPort = hostOf,
      DecodeString =
        (\<lambda>s. if s = goodBase64 then Some goodJSON
             else if s = trace600Base64 then Some trace600JSON
             else if s = restingBase64 then Some restingJSON
             else None),
      UnmarshalEvents =
        (\<lambda>s. if s = goodJSON then Some goodTrace
             else if s = trace600JSON then Some trace600
             else if s = restingJSON then Some (map toEvent restingTrace)
             else None),
      FindAllString =
        (\<lambda>pattern s. if pattern = urlRe \<and> s = threeLinks
                      then [''http://a.example'', ''https://b.example'', ''www.c.example'']
                      else []),
      MatchString = (\<lambda>pattern s. pattern = emailRe \<and> s = ''ada@example.org''),
      QuoteMeta = (\<lambda>s. s)\<rparr>"

text \<open>
  A browser's submission of a contact form, with \<open>decoy\<close> in the hidden field; a browser
  that leaves the field alone submits it empty.
\<close>

definition submission :: "string \<Rightarrow> Request" where
  "submission decoy =
     \<lparr>ParseFormFails = False,
      RemoteAddr = ''203.0.113.7:51234'',
      Header =
        (\<lambda>k. if k = ''User-Agent'' then ''Mozilla/5.0 (X11; Linux x86_64; rv:109.0) Gecko/20100101 Firefox/115.0''
             else if k = ''Referer'' then ''https://shop.example/contact''
             else if k = ''Accept'' then ''text/html''
             else if k = ''Accept-Language'' then ''en-US''
             else ''''),
      Host = ''shop.example'',
      Method = ''POST'',
      Path = ''/contact'',
      Query = (\<lambda>k. ''''),
      Form =
        [(''extra_abcdef'', [decoy]),
         (''ts'', [''1700000000000'']),
         (''js_token'', [''set_by_js'']),
         (''behavior_data'', [goodBase64]),
         (''name'', [''Ada'']),
         (''email'', [''ada@example.org'']),
         (''message'', [''Hi, great post''])],
      Cookie = (\<lambda>k. if k = ''js_captcha'' then Some ''enabled'' else None)\<rparr>"

definition goodRequest :: Request where
  "goodRequest = submission ''''"

definition testConfig :: Config where
  "testConfig =
     \<lparr>ShowBadge = False, BadgeMessage = '''', RateLimitTTL = 0, RateLimitMax = 0,
      EnableStorage = False, DBPath = '''', BlockThreshold = 0, SkipPaths = [''/auth/''],
      SkipIf = None\<rparr>"

definition testEngine :: Captcha where
  "testEngine = New testConfig (\<lambda>i. i) None"

definition testNow :: Time where
  "testNow = 1700000005000 * 1000000"

text \<open>The same submission with one blank in the decoy field, and with a link in it.\<close>

definition blankDecoyRequest :: Request where
  "blankDecoyRequest = submission '' ''"

definition filledDecoyRequest :: Request where
  "filledDecoyRequest = submission ''http://spam.example''"

text \<open>
  A request under the skip path \<open>/auth/\<close> with the decoy field filled; the same request
  with a query string that \<open>ParseForm\<close> rejects; an engine whose predicate panics.
\<close>

definition authRequest :: Request where
  "authRequest = filledDecoyRequest\<lparr>Path := ''/auth/google/callback''\<rparr>"

definition malformedAuthRequest :: Request where
  "malformedAuthRequest = authRequest\<lparr>ParseFormFails := True\<rparr>"


text \<open>The good request without a user agent.\<close>

definition noAgentRequest :: Request where
  "noAgentRequest = goodRequest\<lparr>Header := (Header goodRequest)(''User-Agent'' := '''')\<rparr>"

text \<open>A submission whose message holds three links.\<close>

definition linkRequest :: Request where
  "linkRequest = (submission '''')\<lparr>Form := [(''name'', [''Ada'']), (''message'', [threeLinks])]\<rparr>"

section \<open>The stages of CheckRequest\<close>

text \<open>
  \<open>CheckRequest\<close> returns early on a form that does not parse, on a bypass, on a filled
  decoy field and on a text that is not Latin; \<open>noEarlyReturn\<close> holds of the requests that
  go through all the checks to the comparison with the threshold.
\<close>

definition noEarlyReturn :: "'a Lib_scheme \<Rightarrow> Captcha \<Rightarrow> Request \<Rightarrow> bool" where
  "noEarlyReturn L c r =
     (\<not> ParseFormFails r \<and> \<not> fst (shouldBypass L c r) \<and>
      TrimSpace (FormValue r (fieldName c)) = '''' \<and>
      \<not> (getConfigBool L c ''latin_only'' False \<and> \<not> formIsLatinOnly L c r))"

text \<open>The checks that such a request goes through, from the rate limiter on.\<close>

definition allChecks :: "'a Lib_scheme \<Rightarrow> Captcha \<Rightarrow> Request \<Rightarrow> Time \<Rightarrow> acc" where
  "allChecks L c r now =
     (let ua = Header r ''User-Agent'';
          recent = recentHits c now (rateMap c (clientIP L r))
      in formContent L c r (jsCookie r (secFetch L r ua (acceptHeaders r (headless ua
           (referer r (uaMarker L ua (behavior L r (jsToken r (timestamp r now
           (rateLimit c recent (0, []))))))))))))"

text \<open>
  A field as \<open>analyzeFormContent\<close> reads it: the entry of the map \<open>fields\<close>, trimmed.
\<close>

definition field :: "'a Lib_scheme \<Rightarrow> Request \<Rightarrow> string \<Rightarrow> string" where
  "field L r key = TrimSpace (foldl (classify L r) (\<lambda>k. '''') (map fst (Form r)) key)"

section \<open>Evaluation of the concrete requests\<close>

lemma TrimSpace_blank: "TrimSpace '' '' = ''''"
  by (simp add: TrimSpace_def asciiSpace_def)

lemma TrimSpace_empty: "TrimSpace '''' = ''''"
  by (simp add: TrimSpace_def)

lemma TrimSpace_link: "TrimSpace ''http://spam.example'' = ''http://spam.example''"
  by (simp add: TrimSpace_def asciiSpace_def space2_def space3_def)

lemma fieldName_testEngine: "fieldName testEngine = ''extra_abcdef''"
  by (simp add: testEngine_def New_def Let_def randSeq_def letters_def upt_rec)

lemma cfg_testEngine:
  "cfg testEngine = testConfig\<lparr>RateLimitTTL := Minute, RateLimitMax := 5, BlockThreshold := - 5\<rparr>"
  by (simp add: testEngine_def New_def Let_def testConfig_def)

lemma db_testEngine: "db testEngine = None"
  by (simp add: testEngine_def New_def Let_def testConfig_def)

lemma rateMap_testEngine: "rateMap testEngine = (\<lambda>ip. [])"
  by (simp add: testEngine_def New_def Let_def testConfig_def)

lemma decoy_submission: "FormValue (submission d) (fieldName testEngine) = d"
  by (simp add: fieldName_testEngine submission_def FormValue_def)

lemma bypass_submission: "shouldBypass testLib testEngine (submission d) = (False, '''')"
  by (simp add: shouldBypass_def cfg_testEngine testConfig_def submission_def HasPrefix_def)

lemma ip_submission: "clientIP testLib (submission d) = ''203.0.113.7''"
  by (simp add: clientIP_def testLib_def submission_def hostOf_def)

lemma latin_testEngine: "getConfigBool testLib testEngine ''latin_only'' False = False"
  by (simp add: getConfigBool_def db_testEngine)

lemma rate_first: "rateLimit testEngine (recentHits testEngine now []) a = a"
  by (simp add: rateLimit_def recentHits_def cfg_testEngine testConfig_def)

lemma timestamp_submission: "timestamp (submission d) testNow a = a"
  by (simp add: timestamp_def submission_def FormValue_def ParseInt_def Let_def isDigit_def
      digitsValue_def UnixMilli_def testNow_def)

lemma jsToken_submission: "jsToken (submission d) a = a"
  by (simp add: jsToken_def submission_def FormValue_def)

lemma Hypot_axis: "Hypot p 0 = \<bar>p\<bar>"
  by (simp add: Hypot_def)

lemma sqrt_less_10: "sqrt x < 10 \<longleftrightarrow> x < 100"
proof -
  have "sqrt x < sqrt 100 \<longleftrightarrow> x < 100" by (rule real_sqrt_less_iff)
  moreover have "sqrt 100 = 10" by (rule real_sqrt_unique) simp_all
  ultimately show ?thesis by simp
qed

lemma checkEvents_goodTrace: "checkEvents goodTrace = (True, '''')"
  by (simp add: checkEvents_def goodTrace_def Let_def float64_def Hypot_axis sqrt_less_10)

lemma behavior_submission: "behavior testLib (submission d) a = a"
  by (simp add: behavior_def checkBehavior_def submission_def FormValue_def testLib_def
      checkEvents_goodTrace goodBase64_def goodJSON_def)

lemma uaMarker_submission: "uaMarker testLib (Header (submission d) ''User-Agent'') a = a"
  by (simp add: uaMarker_def submission_def testLib_def lowerASCII_def HasPrefix_def)

lemma referer_submission: "referer (submission d) a = a"
  by (simp add: referer_def submission_def HasPrefix_def)

lemma headless_submission: "headless (Header (submission d) ''User-Agent'') a = a"
  by (simp add: headless_def submission_def HasPrefix_def)

lemma acceptHeaders_submission: "acceptHeaders (submission d) a = a"
  by (simp add: acceptHeaders_def submission_def)

lemma secFetch_submission:
  "secFetch testLib (submission d) (Header (submission d) ''User-Agent'') a = a"
  by (simp add: secFetch_def submission_def testLib_def lowerASCII_def HasPrefix_def)

lemma jsCookie_submission: "jsCookie (submission d) a = a"
  by (simp add: jsCookie_def submission_def)

lemma fields_submission:
  "foldl (classify testLib (submission d)) (\<lambda>k. '''') (map fst (Form (submission d))) =
     (\<lambda>k. if k = ''message'' then [CHR 0x0A] @ ''Hi, great post''
           else if k = ''email'' then ''ada@example.org''
           else if k = ''name'' then ''Ada'' else '''')"
  by (rule ext)
     (simp add: submission_def classify_def testLib_def lowerASCII_def FormValue_def Let_def
        goodBase64_def)

lemma content_submission: "analyzeFormContent testLib testEngine (submission d) = (0, [])"
  apply (simp add: analyzeFormContent_def fields_submission Let_def)
  apply (simp add: TrimSpace_def asciiSpace_def space2_def space3_def)
  apply (simp add: testLib_def linksInMessage_def spamKeywords_def emojiOveruse_def
      repeatedPunct_def nameContainsURL_def websiteInvalid_def emailInvalid_def
      shortMsgWithLink_def hasRepeatedPunct_def isSpecialPunct_def threeLinks_def urlRe_def
      emailRe_def kwRe_def Let_def)
  done

lemma formContent_submission: "formContent testLib testEngine (submission d) a = a"
  by (simp add: formContent_def content_submission)

lemma allChecks_submission: "allChecks testLib testEngine (submission d) testNow = (0, [])"
  by (simp add: allChecks_def Let_def ip_submission rateMap_testEngine rate_first
      timestamp_submission jsToken_submission behavior_submission uaMarker_submission
      referer_submission headless_submission acceptHeaders_submission secFetch_submission
      jsCookie_submission formContent_submission)

lemma noEarlyReturn_submission:
  "noEarlyReturn testLib testEngine (submission d) = (TrimSpace d = '''')"
  by (simp add: noEarlyReturn_def bypass_submission latin_testEngine decoy_submission)
     (simp add: submission_def)

section \<open>How the checks compose\<close>

lemma CheckRequest_parse_error:
  "ParseFormFails r \<Longrightarrow> CheckRequest L c r now = \<lparr>blocked = True, logCall = None, engine = c\<rparr>"
  by (simp add: CheckRequest_def)

lemma CheckRequest_bypass:
  assumes "\<not> ParseFormFails r" and "shouldBypass L c r = (True, why)"
  shows "CheckRequest L c r now =
           \<lparr>blocked = False,
            logCall = Some (clientIP L r, Header r ''User-Agent'', 0, [why]),
            engine = c\<rparr>"
  using assms by (simp add: CheckRequest_def Let_def)

lemma CheckRequest_honeypot:
  assumes "\<not> ParseFormFails r" and "\<not> fst (shouldBypass L c r)"
    and "TrimSpace (FormValue r (fieldName c)) \<noteq> ''''"
  shows "CheckRequest L c r now =
           \<lparr>blocked = True,
            logCall = Some (clientIP L r, Header r ''User-Agent'',
                     fst (rateLimit c (recentHits c now (rateMap c (clientIP L r))) (0, [])),
                     snd (rateLimit c (recentHits c now (rateMap c (clientIP L r))) (0, [])) @
                       [''hidden_field_filled'']),
            engine = c\<lparr>rateMap := (rateMap c)(clientIP L r :=
                        recentHits c now (rateMap c (clientIP L r)))\<rparr>\<rparr>"
  using assms by (cases "shouldBypass L c r") (simp add: CheckRequest_def Let_def)

lemma CheckRequest_scored:
  assumes "noEarlyReturn L c r"
  shows "CheckRequest L c r now =
           \<lparr>blocked = (fst (allChecks L c r now) \<le> threshold c),
            logCall = Some (clientIP L r, Header r ''User-Agent'',
                            fst (allChecks L c r now), snd (allChecks L c r now)),
            engine = c\<lparr>rateMap := (rateMap c)(clientIP L r :=
                        recentHits c now (rateMap c (clientIP L r)))\<rparr>\<rparr>"
  using assms unfolding noEarlyReturn_def
  by (cases "shouldBypass L c r") (auto simp add: CheckRequest_def allChecks_def Let_def)

lemma blocked_scored:
  "noEarlyReturn L c r \<Longrightarrow>
   blocked (CheckRequest L c r now) = (fst (allChecks L c r now) \<le> threshold c)"
  by (simp add: CheckRequest_scored)

lemma score_scored:
  "noEarlyReturn L c r \<Longrightarrow> score (CheckRequest L c r now) = fst (allChecks L c r now)"
  by (simp add: CheckRequest_scored score_def split_beta)

lemma reasons_scored:
  "noEarlyReturn L c r \<Longrightarrow> reasons (CheckRequest L c r now) = snd (allChecks L c r now)"
  by (simp add: CheckRequest_scored reasons_def split_beta)

text \<open>
  Each check adds its own penalty to the score and its own reasons to the end of the list,
  whatever the checks before it found.
\<close>

lemma rateLimit_shift:
  "rateLimit c recent a =
     (fst a + fst (rateLimit c recent (0, [])), snd a @ snd (rateLimit c recent (0, [])))"
  by (simp add: rateLimit_def penalty_def)

lemma timestamp_shift:
  "timestamp r now a =
     (fst a + fst (timestamp r now (0, [])), snd a @ snd (timestamp r now (0, [])))"
  by (simp add: timestamp_def penalty_def Let_def split: option.split)

lemma jsToken_shift:
  "jsToken r a = (fst a + fst (jsToken r (0, [])), snd a @ snd (jsToken r (0, [])))"
  by (simp add: jsToken_def penalty_def)

lemma behavior_shift:
  "behavior L r a = (fst a + fst (behavior L r (0, [])), snd a @ snd (behavior L r (0, [])))"
  by (simp add: behavior_def penalty_def split: prod.split)

lemma uaMarker_shift:
  "uaMarker L ua a = (fst a + fst (uaMarker L ua (0, [])), snd a @ snd (uaMarker L ua (0, [])))"
  by (simp add: uaMarker_def penalty_def)

lemma referer_shift:
  "referer r a = (fst a + fst (referer r (0, [])), snd a @ snd (referer r (0, [])))"
  by (simp add: referer_def penalty_def Let_def)

lemma headless_shift:
  "headless ua a = (fst a + fst (headless ua (0, [])), snd a @ snd (headless ua (0, [])))"
  by (simp add: headless_def penalty_def)

lemma acceptHeaders_shift:
  "acceptHeaders r a =
     (fst a + fst (acceptHeaders r (0, [])), snd a @ snd (acceptHeaders r (0, [])))"
  by (simp add: acceptHeaders_def penalty_def)

lemma secFetch_shift:
  "secFetch L r ua a =
     (fst a + fst (secFetch L r ua (0, [])), snd a @ snd (secFetch L r ua (0, [])))"
  by (simp add: secFetch_def penalty_def)

lemma jsCookie_shift:
  "jsCookie r a = (fst a + fst (jsCookie r (0, [])), snd a @ snd (jsCookie r (0, [])))"
  by (simp add: jsCookie_def penalty_def split: option.split)

lemma formContent_shift:
  "formContent L c r a =
     (fst a + fst (formContent L c r (0, [])), snd a @ snd (formContent L c r (0, [])))"
  by (simp add: formContent_def split: prod.split)

lemma allChecks_sum:
  "allChecks L c r now =
     (fst (rateLimit c (recentHits c now (rateMap c (clientIP L r))) (0, [])) +
      fst (timestamp r now (0, [])) +
      fst (jsToken r (0, [])) +
      fst (behavior L r (0, [])) +
      fst (uaMarker L (Header r ''User-Agent'') (0, [])) +
      fst (referer r (0, [])) +
      fst (headless (Header r ''User-Agent'') (0, [])) +
      fst (acceptHeaders r (0, [])) +
      fst (secFetch L r (Header r ''User-Agent'') (0, [])) +
      fst (jsCookie r (0, [])) +
      fst (formContent L c r (0, [])),
      snd (rateLimit c (recentHits c now (rateMap c (clientIP L r))) (0, [])) @
      snd (timestamp r now (0, [])) @
      snd (jsToken r (0, [])) @
      snd (behavior L r (0, [])) @
      snd (uaMarker L (Header r ''User-Agent'') (0, [])) @
      snd (referer r (0, [])) @
      snd (headless (Header r ''User-Agent'') (0, [])) @
      snd (acceptHeaders r (0, [])) @
      snd (secFetch L r (Header r ''User-Agent'') (0, [])) @
      snd (jsCookie r (0, [])) @
      snd (formContent L c r (0, [])))"
proof -
  define ua where "ua = Header r ''User-Agent''"
  define a1 where "a1 = rateLimit c (recentHits c now (rateMap c (clientIP L r))) (0, [])"
  define a2 where "a2 = timestamp r now a1"
  define a3 where "a3 = jsToken r a2"
  define a4 where "a4 = behavior L r a3"
  define a5 where "a5 = uaMarker L ua a4"
  define a6 where "a6 = referer r a5"
  define a7 where "a7 = headless ua a6"
  define a8 where "a8 = acceptHeaders r a7"
  define a9 where "a9 = secFetch L r ua a8"
  define a10 where "a10 = jsCookie r a9"
  have e2: "a2 = (fst a1 + fst (timestamp r now (0, [])), snd a1 @ snd (timestamp r now (0, [])))"
    unfolding a2_def by (rule timestamp_shift)
  have e3: "a3 = (fst a2 + fst (jsToken r (0, [])), snd a2 @ snd (jsToken r (0, [])))"
    unfolding a3_def by (rule jsToken_shift)
  have e4: "a4 = (fst a3 + fst (behavior L r (0, [])), snd a3 @ snd (behavior L r (0, [])))"
    unfolding a4_def by (rule behavior_shift)
  have e5: "a5 = (fst a4 + fst (uaMarker L ua (0, [])), snd a4 @ snd (uaMarker L ua (0, [])))"
    unfolding a5_def by (rule uaMarker_shift)
  have e6: "a6 = (fst a5 + fst (referer r (0, [])), snd a5 @ snd (referer r (0, [])))"
    unfolding a6_def by (rule referer_shift)
  have e7: "a7 = (fst a6 + fst (headless ua (0, [])), snd a6 @ snd (headless ua (0, [])))"
    unfolding a7_def by (rule headless_shift)
  have e8: "a8 = (fst a7 + fst (acceptHeaders r (0, [])), snd a7 @ snd (acceptHeaders r (0, [])))"
    unfolding a8_def by (rule acceptHeaders_shift)
  have e9: "a9 = (fst a8 + fst (secFetch L r ua (0, [])), snd a8 @ snd (secFetch L r ua (0, [])))"
    unfolding a9_def by (rule secFetch_shift)
  have e10: "a10 = (fst a9 + fst (jsCookie r (0, [])), snd a9 @ snd (jsCookie r (0, [])))"
    unfolding a10_def by (rule jsCookie_shift)
  have "allChecks L c r now = formContent L c r a10"
    by (simp add: allChecks_def Let_def a10_def a9_def a8_def a7_def a6_def a5_def a4_def a3_def
        a2_def a1_def ua_def)
  also have "\<dots> = (fst a10 + fst (formContent L c r (0, [])),
                      snd a10 @ snd (formContent L c r (0, [])))"
    by (rule formContent_shift)
  finally show ?thesis
    by (simp add: e10 e9 e8 e7 e6 e5 e4 e3 e2) (simp add: a1_def ua_def)
qed

section \<open>The decoy field\<close>

text \<open>
  C1 (as the code has it). For every request whose form parses and that no bypass rule
  exempts: if the first value of the decoy field is not empty once the white space around
  it is trimmed, the request is blocked, the reason \<open>hidden_field_filled\<close> is appended,
  and nothing but the rate limiter has contributed to the score and to the reasons: no
  later check is evaluated.
\<close>

theorem honeypot_short_circuit:
  assumes "\<not> ParseFormFails r"
    and "\<not> fst (shouldBypass L c r)"
    and "TrimSpace (FormValue r (fieldName c)) \<noteq> ''''"
  shows "blocked (CheckRequest L c r now) \<and>
         score (CheckRequest L c r now) =
           (if int (length (recentHits c now (rateMap c (clientIP L r)))) > RateLimitMax (cfg c)
            then - 3 else 0) \<and>
         reasons (CheckRequest L c r now) =
           (if int (length (recentHits c now (rateMap c (clientIP L r)))) > RateLimitMax (cfg c)
            then [''rate_limit_exceeded''] else []) @ [''hidden_field_filled'']"
  by (simp add: CheckRequest_honeypot [OF assms] score_def reasons_def rateLimit_def penalty_def)

theorem honeypot_short_circuit_witness:
  "\<not> ParseFormFails filledDecoyRequest \<and>
   \<not> fst (shouldBypass testLib testEngine filledDecoyRequest) \<and>
   TrimSpace (FormValue filledDecoyRequest (fieldName testEngine)) \<noteq> '''' \<and>
   blocked (CheckRequest testLib testEngine filledDecoyRequest testNow) \<and>
   score (CheckRequest testLib testEngine filledDecoyRequest testNow) = 0 \<and>
   reasons (CheckRequest testLib testEngine filledDecoyRequest testNow) = [''hidden_field_filled'']"
proof -
  have h1: "\<not> ParseFormFails filledDecoyRequest"
    by (simp add: filledDecoyRequest_def submission_def)
  have h2: "\<not> fst (shouldBypass testLib testEngine filledDecoyRequest)"
    by (simp add: filledDecoyRequest_def bypass_submission)
  have h3: "TrimSpace (FormValue filledDecoyRequest (fieldName testEngine)) \<noteq> ''''"
    by (simp add: filledDecoyRequest_def decoy_submission TrimSpace_link)
  have h4: "\<not> int (length (recentHits testEngine testNow
              (rateMap testEngine (clientIP testLib filledDecoyRequest)))) > RateLimitMax (cfg testEngine)"
    by (simp add: rateMap_testEngine recentHits_def cfg_testEngine testConfig_def)
  from honeypot_short_circuit [OF h1 h2 h3, of testNow] h1 h2 h3 h4
  show ?thesis by simp
qed

text \<open>
  A decoy field that holds one blank carries a value that is not empty, and yet the request
  is not blocked: the value is trimmed before it is compared with the empty string.
\<close>

theorem blank_decoy_counterexample:
  "\<not> ParseFormFails blankDecoyRequest \<and>
   \<not> fst (shouldBypass testLib testEngine blankDecoyRequest) \<and>
   FormValue blankDecoyRequest (fieldName testEngine) = '' '' \<and>
   \<not> blocked (CheckRequest testLib testEngine blankDecoyRequest testNow) \<and>
   reasons (CheckRequest testLib testEngine blankDecoyRequest testNow) = []"
proof -
  have n: "noEarlyReturn testLib testEngine blankDecoyRequest"
    by (simp add: blankDecoyRequest_def noEarlyReturn_submission TrimSpace_blank)
  have a: "allChecks testLib testEngine blankDecoyRequest testNow = (0, [])"
    by (simp add: blankDecoyRequest_def allChecks_submission)
  have p: "\<not> ParseFormFails blankDecoyRequest"
    by (simp add: blankDecoyRequest_def submission_def)
  have b: "\<not> fst (shouldBypass testLib testEngine blankDecoyRequest)"
    by (simp add: blankDecoyRequest_def bypass_submission)
  have d: "FormValue blankDecoyRequest (fieldName testEngine) = '' ''"
    by (simp add: blankDecoyRequest_def decoy_submission)
  have t: "threshold testEngine = - 5"
    by (simp add: threshold_def cfg_testEngine testConfig_def)
  show ?thesis
    by (simp add: blocked_scored [OF n] reasons_scored [OF n] a p b d t)
qed

section \<open>The verdict\<close>



section \<open>A request without adverse findings\<close>

lemma analyzeFormContent_no_trigger:
  assumes "FindAllString L urlRe (field L r ''message'') = []"
    and "\<not> MatchString L
           (kwRe (map (QuoteMeta L) (filter (\<lambda>kw. kw \<noteq> '''') (map TrimSpace (getSpamKeywords c)))))
           (field L r ''message'')"
    and "length (filter (\<lambda>u. IsSo L u \<or> (0x1F300 \<le> u \<and> u \<le> 0x1FAFF))
           (runes L (field L r ''message''))) < 5"
    and "\<not> hasRepeatedPunct L (field L r ''message'')"
    and "field L r ''name'' = '''' \<or> \<not> MatchString L urlRe (field L r ''name'')"
    and "field L r ''website'' = '''' \<or> MatchString L urlRe (field L r ''website'')"
    and "field L r ''email'' = '''' \<or> MatchString L emailRe (field L r ''email'')"
  shows "analyzeFormContent L c r = (0, [])"
proof -
  have 1: "linksInMessage (FindAllString L urlRe (field L r ''message'')) (0, []) = (0, [])"
    using assms(1) by (simp add: linksInMessage_def)
  have 2: "spamKeywords L c (field L r ''message'') (0, []) = (0, [])"
    using assms(2) by (simp add: spamKeywords_def Let_def)
  have 3: "emojiOveruse L (field L r ''message'') (0, []) = (0, [])"
    using assms(3) by (simp add: emojiOveruse_def Let_def)
  have 4: "repeatedPunct L (field L r ''message'') (0, []) = (0, [])"
    using assms(4) by (simp add: repeatedPunct_def)
  have 5: "nameContainsURL L (field L r ''name'') (0, []) = (0, [])"
    using assms(5) by (auto simp add: nameContainsURL_def)
  have 6: "websiteInvalid L (field L r ''website'') (0, []) = (0, [])"
    using assms(6) by (auto simp add: websiteInvalid_def)
  have 7: "emailInvalid L (field L r ''email'') (0, []) = (0, [])"
    using assms(7) by (auto simp add: emailInvalid_def)
  have 8: "shortMsgWithLink L (field L r ''message'')
             (FindAllString L urlRe (field L r ''message'')) (0, []) = (0, [])"
    using assms(1) by (simp add: shortMsgWithLink_def)
  show ?thesis
    unfolding analyzeFormContent_def Let_def field_def [symmetric]
    by (simp add: 1 2 3 4 5 6 7 8)
qed

text \<open>
  C3. A request with no adverse finding has the score 0 and is not blocked, under any
  configured threshold that is at most 0. No adverse finding means: the form parses, the
  rate limit is not exceeded, the decoy field is empty, the text is Latin where that is
  enforced, the timestamp is present, well-formed and at least 1500 ms old, the token is
  the one that the script sets, the behaviour trace is valid, the user agent has the
  browser marker and none of the markers of a script, the referer is present and names the
  host, the request has an Accept or an Accept-Language header, a Chrome user agent comes
  with a Sec-Fetch header, the cookie is the expected one, and no content heuristic
  triggers: the message has no link, no spam keyword, fewer than five emoji and no
  repeated punctuation, the name holds no link, and the website and the email address,
  where given, are well-formed.
\<close>

theorem no_findings_score_zero:
  assumes parse: "\<not> ParseFormFails r"
    and rate: "int (length (recentHits c now (rateMap c (clientIP L r)))) \<le> RateLimitMax (cfg c)"
    and decoy: "TrimSpace (FormValue r (fieldName c)) = ''''"
    and latin: "\<not> getConfigBool L c ''latin_only'' False \<or> formIsLatinOnly L c r"
    and ts: "FormValue r ''ts'' \<noteq> ''''" "ParseInt (FormValue r ''ts'') = Some ts"
            "1500 \<le> sint (UnixMilli now - ts)"
    and token: "FormValue r ''js_token'' = ''set_by_js''"
    and trace: "fst (checkBehavior L (FormValue r ''behavior_data''))"
    and browser: "Contains (ToLower L (Header r ''User-Agent'')) ''mozilla''"
    and script: "Header r ''User-Agent'' \<noteq> ''''"
            "\<not> Contains (Header r ''User-Agent'') ''HeadlessChrome''"
            "\<not> Contains (Header r ''User-Agent'') ''PhantomJS''"
            "\<not> Contains (Header r ''User-Agent'') ''SlimerJS''"
            "\<not> Contains (Header r ''User-Agent'') ''Electron''"
            "\<not> Contains (Header r ''User-Agent'') ''Puppeteer''"
            "\<not> Contains (Header r ''User-Agent'') ''Go-http-client''"
            "\<not> Contains (Header r ''User-Agent'') ''curl''"
            "\<not> Contains (Header r ''User-Agent'') ''python-requests''"
    and ref: "Header r ''Referer'' \<noteq> ''''"
            "Host r = '''' \<or> Contains (Header r ''Referer'') (Host r)"
    and accept: "Header r ''Accept'' \<noteq> '''' \<or> Header r ''Accept-Language'' \<noteq> ''''"
    and fetch: "\<not> Contains (ToLower L (Header r ''User-Agent'')) ''chrome'' \<or>
                Header r ''Sec-Fetch-Site'' \<noteq> '''' \<or> Header r ''Sec-Fetch-Mode'' \<noteq> ''''"
    and cookie: "Cookie r ''js_captcha'' = Some ''enabled''"
    and content: "FindAllString L urlRe (field L r ''message'') = []"
            "\<not> MatchString L
               (kwRe (map (QuoteMeta L)
                  (filter (\<lambda>kw. kw \<noteq> '''') (map TrimSpace (getSpamKeywords c)))))
               (field L r ''message'')"
            "length (filter (\<lambda>u. IsSo L u \<or> (0x1F300 \<le> u \<and> u \<le> 0x1FAFF))
               (runes L (field L r ''message''))) < 5"
            "\<not> hasRepeatedPunct L (field L r ''message'')"
            "field L r ''name'' = '''' \<or> \<not> MatchString L urlRe (field L r ''name'')"
            "field L r ''website'' = '''' \<or> MatchString L urlRe (field L r ''website'')"
            "field L r ''email'' = '''' \<or> MatchString L emailRe (field L r ''email'')"
    and thr: "BlockThreshold (cfg c) \<le> 0"
  shows "score (CheckRequest L c r now) = 0 \<and> \<not> blocked (CheckRequest L c r now)"
proof (cases "fst (shouldBypass L c r)")
  case True
  then have "shouldBypass L c r = (True, snd (shouldBypass L c r))"
    by (cases "shouldBypass L c r") simp
  from CheckRequest_bypass [OF parse this] show ?thesis
    by (simp add: score_def)
next
  case False
  with parse decoy latin have n: "noEarlyReturn L c r"
    by (auto simp add: noEarlyReturn_def)
  have s1: "rateLimit c (recentHits c now (rateMap c (clientIP L r))) (0, []) = (0, [])"
    using rate by (simp add: rateLimit_def)
  have s2: "timestamp r now a = a" for a
    using ts by (simp add: timestamp_def Let_def)
  have s3: "jsToken r a = a" for a
    using token by (simp add: jsToken_def)
  have s4: "behavior L r a = a" for a
    using trace by (cases "checkBehavior L (FormValue r ''behavior_data'')") (simp add: behavior_def)
  have s5: "uaMarker L (Header r ''User-Agent'') a = a" for a
    using browser script(1) by (simp add: uaMarker_def)
  have s6: "referer r a = a" for a
    using ref by (auto simp add: referer_def Let_def)
  have s7: "headless (Header r ''User-Agent'') a = a" for a
    using script by (simp add: headless_def)
  have s8: "acceptHeaders r a = a" for a
    using accept by (auto simp add: acceptHeaders_def)
  have s9: "secFetch L r (Header r ''User-Agent'') a = a" for a
    using fetch by (auto simp add: secFetch_def)
  have s10: "jsCookie r a = a" for a
    using cookie by (simp add: jsCookie_def)
  have s11: "formContent L c r a = a" for a
    by (simp add: formContent_def analyzeFormContent_no_trigger [OF content])
  have a: "allChecks L c r now = (0, [])"
    by (simp add: allChecks_def Let_def s1 s2 s3 s4 s5 s6 s7 s8 s9 s10 s11)
  have "\<not> 0 \<le> threshold c"
    using thr by (simp add: threshold_def)
  then show ?thesis
    by (simp add: score_scored [OF n] blocked_scored [OF n] a)
qed

theorem no_findings_score_zero_witness:
  "\<not> ParseFormFails goodRequest \<and>
   int (length (recentHits testEngine testNow (rateMap testEngine (clientIP testLib goodRequest))))
     \<le> RateLimitMax (cfg testEngine) \<and>
   TrimSpace (FormValue goodRequest (fieldName testEngine)) = '''' \<and>
   \<not> getConfigBool testLib testEngine ''latin_only'' False \<and>
   FormValue goodRequest ''ts'' \<noteq> '''' \<and>
   ParseInt (FormValue goodRequest ''ts'') = Some 1700000000000 \<and>
   1500 \<le> sint (UnixMilli testNow - 1700000000000) \<and>
   FormValue goodRequest ''js_token'' = ''set_by_js'' \<and>
   fst (checkBehavior testLib (FormValue goodRequest ''behavior_data'')) \<and>
   Contains (ToLower testLib (Header goodRequest ''User-Agent'')) ''mozilla'' \<and>
   Header goodRequest ''User-Agent'' \<noteq> '''' \<and>
   \<not> Contains (Header goodRequest ''User-Agent'') ''HeadlessChrome'' \<and>
   \<not> Contains (Header goodRequest ''User-Agent'') ''PhantomJS'' \<and>
   \<not> Contains (Header goodRequest ''User-Agent'') ''SlimerJS'' \<and>
   \<not> Contains (Header goodRequest ''User-Agent'') ''Electron'' \<and>
   \<not> Contains (Header goodRequest ''User-Agent'') ''Puppeteer'' \<and>
   \<not> Contains (Header goodRequest ''User-Agent'') ''Go-http-client'' \<and>
   \<not> Contains (Header goodRequest ''User-Agent'') ''curl'' \<and>
   \<not> Contains (Header goodRequest ''User-Agent'') ''python-requests'' \<and>
   Header goodRequest ''Referer'' \<noteq> '''' \<and>
   Contains (Header goodRequest ''Referer'') (Host goodRequest) \<and>
   Header goodRequest ''Accept'' \<noteq> '''' \<and>
   \<not> Contains (ToLower testLib (Header goodRequest ''User-Agent'')) ''chrome'' \<and>
   Cookie goodRequest ''js_captcha'' = Some ''enabled'' \<and>
   FindAllString testLib urlRe (field testLib goodRequest ''message'') = [] \<and>
   \<not> MatchString testLib
       (kwRe (map (QuoteMeta testLib)
          (filter (\<lambda>kw. kw \<noteq> '''') (map TrimSpace (getSpamKeywords testEngine)))))
       (field testLib goodRequest ''message'') \<and>
   length (filter (\<lambda>u. IsSo testLib u \<or> (0x1F300 \<le> u \<and> u \<le> 0x1FAFF))
       (runes testLib (field testLib goodRequest ''message''))) < 5 \<and>
   \<not> hasRepeatedPunct testLib (field testLib goodRequest ''message'') \<and>
   \<not> MatchString testLib urlRe (field testLib goodRequest ''name'') \<and>
   field testLib goodRequest ''website'' = '''' \<and>
   MatchString testLib emailRe (field testLib goodRequest ''email'') \<and>
   BlockThreshold (cfg testEngine) \<le> 0 \<and>
   score (CheckRequest testLib testEngine goodRequest testNow) = 0 \<and>
   \<not> blocked (CheckRequest testLib testEngine goodRequest testNow)"
proof -
  have parse: "\<not> ParseFormFails goodRequest"
    by (simp add: goodRequest_def submission_def)
  have rate: "int (length (recentHits testEngine testNow
                (rateMap testEngine (clientIP testLib goodRequest)))) \<le> RateLimitMax (cfg testEngine)"
    by (simp add: rateMap_testEngine recentHits_def cfg_testEngine testConfig_def)
  have decoy: "TrimSpace (FormValue goodRequest (fieldName testEngine)) = ''''"
    by (simp add: goodRequest_def decoy_submission TrimSpace_empty)
  have latin: "\<not> getConfigBool testLib testEngine ''latin_only'' False"
    by (simp add: latin_testEngine)
  have ts: "FormValue goodRequest ''ts'' \<noteq> ''''"
      "ParseInt (FormValue goodRequest ''ts'') = Some 1700000000000"
      "1500 \<le> sint (UnixMilli testNow - 1700000000000)"
    by (simp_all add: goodRequest_def submission_def FormValue_def ParseInt_def Let_def
        isDigit_def digitsValue_def UnixMilli_def testNow_def)
  have token: "FormValue goodRequest ''js_token'' = ''set_by_js''"
    by (simp add: goodRequest_def submission_def FormValue_def)
  have trace: "fst (checkBehavior testLib (FormValue goodRequest ''behavior_data''))"
    by (simp add: goodRequest_def checkBehavior_def submission_def FormValue_def testLib_def
        checkEvents_goodTrace goodBase64_def goodJSON_def)
  have browser: "Contains (ToLower testLib (Header goodRequest ''User-Agent'')) ''mozilla''"
    by (simp add: goodRequest_def submission_def testLib_def lowerASCII_def HasPrefix_def)
  have script: "Header goodRequest ''User-Agent'' \<noteq> ''''"
      "\<not> Contains (Header goodRequest ''User-Agent'') ''HeadlessChrome''"
      "\<not> Contains (Header goodRequest ''User-Agent'') ''PhantomJS''"
      "\<not> Contains (Header goodRequest ''User-Agent'') ''SlimerJS''"
      "\<not> Contains (Header goodRequest ''User-Agent'') ''Electron''"
      "\<not> Contains (Header goodRequest ''User-Agent'') ''Puppeteer''"
      "\<not> Contains (Header goodRequest ''User-Agent'') ''Go-http-client''"
      "\<not> Contains (Header goodRequest ''User-Agent'') ''curl''"
      "\<not> Contains (Header goodRequest ''User-Agent'') ''python-requests''"
    by (simp_all add: goodRequest_def submission_def HasPrefix_def)
  have ref: "Header goodRequest ''Referer'' \<noteq> ''''"
      "Contains (Header goodRequest ''Referer'') (Host goodRequest)"
    by (simp_all add: goodRequest_def submission_def HasPrefix_def)
  have accept: "Header goodRequest ''Accept'' \<noteq> ''''"
    by (simp add: goodRequest_def submission_def)
  have fetch: "\<not> Contains (ToLower testLib (Header goodRequest ''User-Agent'')) ''chrome''"
    by (simp add: goodRequest_def submission_def testLib_def lowerASCII_def HasPrefix_def)
  have cookie: "Cookie goodRequest ''js_captcha'' = Some ''enabled''"
    by (simp add: goodRequest_def submission_def)
  have m: "field testLib goodRequest ''message'' = ''Hi, great post''"
    by (simp add: field_def goodRequest_def fields_submission)
       (simp add: TrimSpace_def asciiSpace_def space2_def space3_def)
  have nm: "field testLib goodRequest ''name'' = ''Ada''"
    by (simp add: field_def goodRequest_def fields_submission)
       (simp add: TrimSpace_def asciiSpace_def space2_def space3_def)
  have em: "field testLib goodRequest ''email'' = ''ada@example.org''"
    by (simp add: field_def goodRequest_def fields_submission)
       (simp add: TrimSpace_def asciiSpace_def space2_def space3_def)
  have ws: "field testLib goodRequest ''website'' = ''''"
    by (simp add: field_def goodRequest_def fields_submission TrimSpace_empty)
  have c1: "FindAllString testLib urlRe (field testLib goodRequest ''message'') = []"
    unfolding m by (simp add: testLib_def threeLinks_def)
  have c2: "\<not> MatchString testLib
       (kwRe (map (QuoteMeta testLib)
          (filter (\<lambda>kw. kw \<noteq> '''') (map TrimSpace (getSpamKeywords testEngine)))))
       (field testLib goodRequest ''message'')"
    unfolding m by (simp add: testLib_def)
  have c3: "length (filter (\<lambda>u. IsSo testLib u \<or> (0x1F300 \<le> u \<and> u \<le> 0x1FAFF))
       (runes testLib (field testLib goodRequest ''message''))) < 5"
    unfolding m by (simp add: testLib_def)
  have c4: "\<not> hasRepeatedPunct testLib (field testLib goodRequest ''message'')"
    unfolding m by (simp add: testLib_def hasRepeatedPunct_def isSpecialPunct_def)
  have c5: "\<not> MatchString testLib urlRe (field testLib goodRequest ''name'')"
    unfolding nm by (simp add: testLib_def)
  have c7: "MatchString testLib emailRe (field testLib goodRequest ''email'')"
    unfolding em by (simp add: testLib_def)
  have thr: "BlockThreshold (cfg testEngine) \<le> 0"
    by (simp add: cfg_testEngine)
  note result = no_findings_score_zero [OF parse rate decoy disjI1 [OF latin] ts token trace
      browser script ref(1) disjI2 [OF ref(2)] disjI1 [OF accept] disjI1 [OF fetch] cookie
      c1 c2 c3 c4 disjI2 [OF c5] disjI1 [OF ws] disjI2 [OF c7] thr]
  show ?thesis
    using parse rate decoy latin ts token trace browser script ref accept fetch cookie
      c1 c2 c3 c4 c5 ws c7 thr result
    by blast
qed

section \<open>Bypass rules\<close>

lemma matchSkipPaths_member:
  "pref \<in> set prefs \<Longrightarrow> pref \<noteq> '''' \<Longrightarrow> HasPrefix p pref \<Longrightarrow> matchSkipPaths p prefs"
  by (induction prefs) auto


lemma path_authRequest: "Path authRequest = ''/auth/google/callback''"
  by (simp add: authRequest_def)

lemma decoy_authRequest: "FormValue authRequest (fieldName testEngine) = ''http://spam.example''"
  by (simp add: authRequest_def filledDecoyRequest_def fieldName_testEngine submission_def
      FormValue_def)




text \<open>
  C5 (as the code has it). For every request whose form parses and whose path has a
  configured prefix that is not empty, with no predicate configured or a predicate that
  returns without a panic: the request is not blocked, whatever the decoy field holds. It
  is logged with the score 0 and a bypass reason, and the rate limiter is not touched: the
  bypass rules are evaluated before the rate limiter and the decoy field.
\<close>

theorem skip_path_before_honeypot:
  assumes "\<not> ParseFormFails r"
    and "case SkipIf (cfg c) of None \<Rightarrow> True | Some f \<Rightarrow> f r \<noteq> None"
    and "pref \<in> set (SkipPaths (cfg c))"
    and "pref \<noteq> ''''"
    and "HasPrefix (Path r) pref"
  shows "\<not> blocked (CheckRequest L c r now) \<and>
         score (CheckRequest L c r now) = 0 \<and>
         reasons (CheckRequest L c r now) \<in> {[''bypass:custom''], [''bypass:skip_path'']} \<and>
         engine (CheckRequest L c r now) = c"
proof -
  have m: "matchSkipPaths (Path r) (SkipPaths (cfg c))"
    using assms(3-5) by (rule matchSkipPaths_member)
  have n: "length (SkipPaths (cfg c)) > 0"
    using assms(3) by (cases "SkipPaths (cfg c)") auto
  have "shouldBypass L c r = (True, ''bypass:custom'') \<or>
        shouldBypass L c r = (True, ''bypass:skip_path'')"
    using assms(2) m n by (auto simp add: shouldBypass_def split: option.splits bool.splits)
  then show ?thesis
  proof
    assume b: "shouldBypass L c r = (True, ''bypass:custom'')"
    show ?thesis
      by (simp add: CheckRequest_bypass [OF assms(1) b] score_def reasons_def)
  next
    assume b: "shouldBypass L c r = (True, ''bypass:skip_path'')"
    show ?thesis
      by (simp add: CheckRequest_bypass [OF assms(1) b] score_def reasons_def)
  qed
qed

theorem skip_path_before_honeypot_witness:
  "\<not> ParseFormFails authRequest \<and>
   (case SkipIf (cfg testEngine) of None \<Rightarrow> True | Some f \<Rightarrow> f authRequest \<noteq> None) \<and>
   ''/auth/'' \<in> set (SkipPaths (cfg testEngine)) \<and>
   ''/auth/'' \<noteq> '''' \<and>
   HasPrefix (Path authRequest) ''/auth/'' \<and>
   TrimSpace (FormValue authRequest (fieldName testEngine)) \<noteq> '''' \<and>
   \<not> blocked (CheckRequest testLib testEngine authRequest testNow) \<and>
   score (CheckRequest testLib testEngine authRequest testNow) = 0 \<and>
   engine (CheckRequest testLib testEngine authRequest testNow) = testEngine"
proof -
  have h1: "\<not> ParseFormFails authRequest"
    by (simp add: authRequest_def filledDecoyRequest_def submission_def)
  have h2: "case SkipIf (cfg testEngine) of None \<Rightarrow> True | Some f \<Rightarrow> f authRequest \<noteq> None"
    by (simp add: cfg_testEngine testConfig_def)
  have h3: "''/auth/'' \<in> set (SkipPaths (cfg testEngine))"
    by (simp add: cfg_testEngine testConfig_def)
  have h4: "''/auth/'' \<noteq> ''''"
    by simp
  have h5: "HasPrefix (Path authRequest) ''/auth/''"
    by (simp add: path_authRequest HasPrefix_def)
  have h6: "TrimSpace (FormValue authRequest (fieldName testEngine)) \<noteq> ''''"
    by (simp add: decoy_authRequest TrimSpace_link)
  from skip_path_before_honeypot [OF h1 h2 h3 h4 h5, of testLib testNow] h1 h2 h3 h5 h6
  show ?thesis
    by simp
qed

text \<open>
  The path has the configured prefix, but the form does not parse: \<open>CheckRequest\<close> returns
  \<open>true\<close> before it looks at the bypass rules.
\<close>

theorem skip_path_malformed_form_counterexample:
  "SkipPaths (cfg testEngine) = [''/auth/''] \<and>
   HasPrefix (Path malformedAuthRequest) ''/auth/'' \<and>
   blocked (CheckRequest testLib testEngine malformedAuthRequest testNow)"
  by (simp add: cfg_testEngine testConfig_def malformedAuthRequest_def path_authRequest
      HasPrefix_def CheckRequest_def)

section \<open>The behaviour trace\<close>

text \<open>
  C7. The source asks for a duration of more than 600 ms in its comment and tests
  \<open>dur < 600\<close>. A trace of five events with strictly increasing timestamps whose last
  timestamp is 600 ms after the first is not rejected as too short: it passes this step,
  and, being valid otherwise, the whole validation.
\<close>

theorem trace_of_600ms_accepted:
  "length trace600 = 5 \<and>
   increasing (T (hd trace600)) (tl trace600) \<and>
   sint (T (last trace600) - T (hd trace600)) = 600 \<and>
   checkEvents trace600 = (True, '''') \<and>
   checkBehavior testLib trace600Base64 = (True, '''')"
proof -
  have "checkEvents trace600 = (True, '''')"
    by (simp add: checkEvents_def trace600_def Let_def float64_def Hypot_axis sqrt_less_10)
  then show ?thesis
    by (simp add: checkBehavior_def testLib_def trace600Base64_def goodBase64_def
        trace600JSON_def goodJSON_def)
       (simp add: trace600_def)
qed

lemma movement_pathLength:
  "fst (movement prev evs (d, ds)) = d + pathLength (prev # evs)"
proof (induction evs arbitrary: prev d ds)
  case Nil
  show ?case by simp
next
  case (Cons ev evs)
  show ?case
    by (simp add: Let_def Cons.IH eventDist_def)
qed

lemma filter_all_positional: "list_all positional tr \<Longrightarrow> filter positional tr = tr"
  by (induction tr) auto

text \<open>
  C6 (as the code has it). The distance is summed over every pair of consecutive events of
  the decoded trace. An event without a position (a key press, a click) is decoded at the
  position \<open>(0, 0)\<close>: between a pointer event at \<open>(x, y)\<close> and such an event the code adds
  the distance of \<open>(x, y)\<close> from the origin. On a trace of pointer events only, the sum is the
  distance between consecutive positional events.
\<close>

theorem distance_over_all_events:
  "fst (movement (toEvent e) (map toEvent tr) (0, [])) = pathLength (map toEvent (e # tr)) \<and>
   (list_all positional (e # tr) \<longrightarrow>
      fst (movement (toEvent e) (map toEvent tr) (0, [])) = specDistance (e # tr)) \<and>
   eventDist (toEvent (Move x y t)) (toEvent (Key t')) = Hypot (float64 (0 - x)) (float64 (0 - y)) \<and>
   eventDist (toEvent (Key t')) (toEvent (Move x y t)) = Hypot (float64 (x - 0)) (float64 (y - 0)) \<and>
   eventDist (toEvent (Move x y t)) (toEvent (Click t')) = Hypot (float64 (0 - x)) (float64 (0 - y)) \<and>
   eventDist (toEvent (Click t')) (toEvent (Move x y t)) = Hypot (float64 (x - 0)) (float64 (y - 0))"
proof -
  have a: "fst (movement (toEvent e) (map toEvent tr) (0, [])) = pathLength (map toEvent (e # tr))"
    by (simp add: movement_pathLength)
  have "list_all positional (e # tr) \<Longrightarrow> specDistance (e # tr) = pathLength (map toEvent (e # tr))"
    unfolding specDistance_def by (simp only: filter_all_positional)
  with a show ?thesis
    by (simp add: eventDist_def)
qed

theorem distance_over_all_events_witness:
  "list_all positional [Move 0 0 1000, Move 30 0 1100, Move 30 40 1300] \<and>
   fst (movement (toEvent (Move 0 0 1000)) (map toEvent [Move 30 0 1100, Move 30 40 1300]) (0, []))
     = specDistance [Move 0 0 1000, Move 30 0 1100, Move 30 40 1300] \<and>
   specDistance [Move 0 0 1000, Move 30 0 1100, Move 30 40 1300] = 70"
proof -
  have p: "list_all positional [Move 0 0 1000, Move 30 0 1100, Move 30 40 1300]"
    by simp
  have h: "Hypot 0 40 = 40"
    by (simp add: Hypot_def)
  have s: "specDistance [Move 0 0 1000, Move 30 0 1100, Move 30 40 1300] = 70"
    by (simp add: specDistance_def eventDist_def float64_def Hypot_axis h)
  from distance_over_all_events [of "Move 0 0 1000" "[Move 30 0 1100, Move 30 40 1300]"]
  have "list_all positional [Move 0 0 1000, Move 30 0 1100, Move 30 40 1300] \<longrightarrow>
        fst (movement (toEvent (Move 0 0 1000)) (map toEvent [Move 30 0 1100, Move 30 40 1300]) (0, []))
          = specDistance [Move 0 0 1000, Move 30 0 1100, Move 30 40 1300]"
    by (rule conjunct2 [THEN conjunct1])
  with p have e: "fst (movement (toEvent (Move 0 0 1000))
                    (map toEvent [Move 30 0 1100, Move 30 40 1300]) (0, []))
                  = specDistance [Move 0 0 1000, Move 30 0 1100, Move 30 40 1300]"
    by (rule rev_mp)
  show ?thesis
    by (intro conjI) (rule p, rule e, rule s)
qed

text \<open>
  A pointer that rests at \<open>(30, 0)\<close> while a key is pressed and a button is clicked: no
  distance between the positional events, and yet the code counts 120, enough for the
  trace to pass as one with movement.
\<close>

theorem resting_pointer_counterexample:
  "specDistance restingTrace = 0 \<and>
   fst (movement (toEvent (hd restingTrace)) (map toEvent (tl restingTrace)) (0, [])) = 120 \<and>
   checkBehavior testLib restingBase64 = (True, '''')"
proof -
  have "checkEvents (map toEvent restingTrace) = (True, '''')"
    by (simp add: restingTrace_def checkEvents_def Let_def float64_def Hypot_axis sqrt_less_10)
  then have "checkBehavior testLib restingBase64 = (True, '''')"
    by (simp add: checkBehavior_def testLib_def restingBase64_def goodBase64_def
        trace600Base64_def restingJSON_def trace600JSON_def goodJSON_def)
  then show ?thesis
    by (simp add: restingTrace_def specDistance_def eventDist_def float64_def Hypot_axis)
qed

section \<open>Links in the message\<close>

lemma linksInMessage_shift:
  "linksInMessage links a =
     (fst a + fst (linksInMessage links (0, [])), snd a @ snd (linksInMessage links (0, [])))"
  by (simp add: linksInMessage_def Let_def)

lemma spamKeywords_shift:
  "spamKeywords L c msg a =
     (fst a + fst (spamKeywords L c msg (0, [])), snd a @ snd (spamKeywords L c msg (0, [])))"
  by (simp add: spamKeywords_def penalty_def Let_def)

lemma emojiOveruse_shift:
  "emojiOveruse L msg a =
     (fst a + fst (emojiOveruse L msg (0, [])), snd a @ snd (emojiOveruse L msg (0, [])))"
  by (simp add: emojiOveruse_def penalty_def Let_def)

lemma repeatedPunct_shift:
  "repeatedPunct L msg a =
     (fst a + fst (repeatedPunct L msg (0, [])), snd a @ snd (repeatedPunct L msg (0, [])))"
  by (simp add: repeatedPunct_def penalty_def)

lemma nameContainsURL_shift:
  "nameContainsURL L name a =
     (fst a + fst (nameContainsURL L name (0, [])), snd a @ snd (nameContainsURL L name (0, [])))"
  by (simp add: nameContainsURL_def penalty_def)

lemma websiteInvalid_shift:
  "websiteInvalid L website a =
     (fst a + fst (websiteInvalid L website (0, [])), snd a @ snd (websiteInvalid L website (0, [])))"
  by (simp add: websiteInvalid_def penalty_def)

lemma emailInvalid_shift:
  "emailInvalid L email a =
     (fst a + fst (emailInvalid L email (0, [])), snd a @ snd (emailInvalid L email (0, [])))"
  by (simp add: emailInvalid_def penalty_def)

lemma shortMsgWithLink_shift:
  "shortMsgWithLink L msg links a =
     (fst a + fst (shortMsgWithLink L msg links (0, [])),
      snd a @ snd (shortMsgWithLink L msg links (0, [])))"
  by (simp add: shortMsgWithLink_def penalty_def)

lemma analyzeFormContent_delta:
  "fst (analyzeFormContent L c r) =
     fst (linksInMessage (FindAllString L urlRe (field L r ''message'')) (0, [])) +
     (fst (spamKeywords L c (field L r ''message'') (0, [])) +
      fst (emojiOveruse L (field L r ''message'') (0, [])) +
      fst (repeatedPunct L (field L r ''message'') (0, [])) +
      fst (nameContainsURL L (field L r ''name'') (0, [])) +
      fst (websiteInvalid L (field L r ''website'') (0, [])) +
      fst (emailInvalid L (field L r ''email'') (0, [])) +
      fst (shortMsgWithLink L (field L r ''message'')
             (FindAllString L urlRe (field L r ''message'')) (0, [])))"
proof -
  define msg where "msg = field L r ''message''"
  define links where "links = FindAllString L urlRe msg"
  define a1 where "a1 = linksInMessage links (0, [])"
  define a2 where "a2 = spamKeywords L c msg a1"
  define a3 where "a3 = emojiOveruse L msg a2"
  define a4 where "a4 = repeatedPunct L msg a3"
  define a5 where "a5 = nameContainsURL L (field L r ''name'') a4"
  define a6 where "a6 = websiteInvalid L (field L r ''website'') a5"
  define a7 where "a7 = emailInvalid L (field L r ''email'') a6"
  have e2: "fst a2 = fst a1 + fst (spamKeywords L c msg (0, []))"
    unfolding a2_def by (subst spamKeywords_shift) simp
  have e3: "fst a3 = fst a2 + fst (emojiOveruse L msg (0, []))"
    unfolding a3_def by (subst emojiOveruse_shift) simp
  have e4: "fst a4 = fst a3 + fst (repeatedPunct L msg (0, []))"
    unfolding a4_def by (subst repeatedPunct_shift) simp
  have e5: "fst a5 = fst a4 + fst (nameContainsURL L (field L r ''name'') (0, []))"
    unfolding a5_def by (subst nameContainsURL_shift) simp
  have e6: "fst a6 = fst a5 + fst (websiteInvalid L (field L r ''website'') (0, []))"
    unfolding a6_def by (subst websiteInvalid_shift) simp
  have e7: "fst a7 = fst a6 + fst (emailInvalid L (field L r ''email'') (0, []))"
    unfolding a7_def by (subst emailInvalid_shift) simp
  have "analyzeFormContent L c r = shortMsgWithLink L msg links a7"
    by (simp add: analyzeFormContent_def Let_def field_def a7_def a6_def a5_def a4_def a3_def
        a2_def a1_def links_def msg_def)
  then have "fst (analyzeFormContent L c r) = fst a7 + fst (shortMsgWithLink L msg links (0, []))"
    by (subst (asm) shortMsgWithLink_shift) simp
  then show ?thesis
    by (simp add: e7 e6 e5 e4 e3 e2) (simp add: a1_def links_def msg_def)
qed

text \<open>
  C8. When the regular expression for links finds \<open>n \<ge> 1\<close> occurrences in the message
  field, the link check of the content analyzer gives \<open>-2\<close> for one occurrence, \<open>-3\<close> for
  two and \<open>-4\<close> for three or more, with one reason that carries the count; this penalty is
  one summand of the delta that the analyzer returns, the others being the penalties of its
  other checks.
\<close>

theorem link_penalty:
  assumes "links = FindAllString L urlRe (field L r ''message'')"
    and "n = length links"
    and "1 \<le> n"
  shows "linksInMessage links (0, []) =
           (if n = 1 then - 2 else if n = 2 then - 3 else - 4,
            [''links_in_message:'' @ Itoa (int n)]) \<and>
         (if 3 \<le> n then fst (linksInMessage links (0, [])) = - 4
          else fst (linksInMessage links (0, [])) = - 1 - int n) \<and>
         fst (analyzeFormContent L c r) =
           fst (linksInMessage links (0, [])) +
           (fst (spamKeywords L c (field L r ''message'') (0, [])) +
            fst (emojiOveruse L (field L r ''message'') (0, [])) +
            fst (repeatedPunct L (field L r ''message'') (0, [])) +
            fst (nameContainsURL L (field L r ''name'') (0, [])) +
            fst (websiteInvalid L (field L r ''website'') (0, [])) +
            fst (emailInvalid L (field L r ''email'') (0, [])) +
            fst (shortMsgWithLink L (field L r ''message'') links (0, [])))"
proof -
  have "linksInMessage links (0, []) =
          (if n = 1 then - 2 else if n = 2 then - 3 else - 4,
           [''links_in_message:'' @ Itoa (int n)])"
    using assms(2,3) by (auto simp add: linksInMessage_def Let_def min_def)
  then show ?thesis
    using assms(1,3) by (simp add: analyzeFormContent_delta)
qed

theorem link_penalty_witness:
  "[''http://a.example'', ''https://b.example'', ''www.c.example''] =
     FindAllString testLib urlRe (field testLib linkRequest ''message'') \<and>
   (3::nat) = length [''http://a.example'', ''https://b.example'', ''www.c.example''] \<and>
   (1::nat) \<le> 3 \<and>
   linksInMessage [''http://a.example'', ''https://b.example'', ''www.c.example''] (0, []) =
     (- 4, [''links_in_message:3'']) \<and>
   fst (analyzeFormContent testLib testEngine linkRequest) = - 4"
proof -
  have f: "foldl (classify testLib linkRequest) (\<lambda>k. '''') (map fst (Form linkRequest)) =
             (\<lambda>k. if k = ''message'' then CHR 0x0A # threeLinks
                   else if k = ''name'' then ''Ada'' else '''')"
    by (rule ext)
       (simp add: linkRequest_def classify_def testLib_def lowerASCII_def FormValue_def Let_def)
  have m: "field testLib linkRequest ''message'' = threeLinks"
    by (simp add: field_def f)
       (simp add: threeLinks_def TrimSpace_def asciiSpace_def space2_def space3_def)
  have nm: "field testLib linkRequest ''name'' = ''Ada''"
    by (simp add: field_def f) (simp add: TrimSpace_def asciiSpace_def space2_def space3_def)
  have em: "field testLib linkRequest ''email'' = ''''"
    by (simp add: field_def f TrimSpace_empty)
  have ws: "field testLib linkRequest ''website'' = ''''"
    by (simp add: field_def f TrimSpace_empty)
  have h1: "[''http://a.example'', ''https://b.example'', ''www.c.example''] =
              FindAllString testLib urlRe (field testLib linkRequest ''message'')"
    unfolding m by (simp add: testLib_def)
  have h2: "(3::nat) = length [''http://a.example'', ''https://b.example'', ''www.c.example'']"
    by simp
  have h3: "(1::nat) \<le> 3"
    by simp
  have i: "Itoa 3 = ''3''"
    by (simp add: Itoa_def digitChar_def eval_nat_numeral)
  have o: "fst (spamKeywords testLib testEngine threeLinks (0, [])) = 0"
      "fst (emojiOveruse testLib threeLinks (0, [])) = 0"
      "fst (repeatedPunct testLib threeLinks (0, [])) = 0"
      "fst (nameContainsURL testLib ''Ada'' (0, [])) = 0"
      "fst (websiteInvalid testLib '''' (0, [])) = 0"
      "fst (emailInvalid testLib '''' (0, [])) = 0"
      "fst (shortMsgWithLink testLib threeLinks
              [''http://a.example'', ''https://b.example'', ''www.c.example''] (0, [])) = 0"
    by (simp_all add: testLib_def spamKeywords_def emojiOveruse_def repeatedPunct_def
        nameContainsURL_def websiteInvalid_def emailInvalid_def shortMsgWithLink_def
        hasRepeatedPunct_def isSpecialPunct_def threeLinks_def urlRe_def emailRe_def kwRe_def
        Let_def)
  note p = link_penalty [OF h1 h2 h3, of testEngine]
  have c1: "linksInMessage [''http://a.example'', ''https://b.example'', ''www.c.example''] (0, []) =
              (- 4, [''links_in_message:3''])"
    using p by (simp add: i)
  have c2: "fst (analyzeFormContent testLib testEngine linkRequest) = - 4"
    using p by (simp add: m nm em ws o)
  show ?thesis
    by (intro conjI) (rule h1, rule h2, rule h3, rule c1, rule c2)
qed

section \<open>The rate limiter\<close>





section \<open>An empty user agent\<close>

text \<open>
  C10. For every request with an empty \<open>User-Agent\<close> header both user-agent checks
  trigger: the check of the browser marker takes 2 from the score and adds the reason
  \<open>ua_suspicious\<close>, the check for headless and scripted clients takes a further 4 and adds
  the reason \<open>headless_or_scripted_ua\<close>. The block of checks on the user agent and the
  referer therefore takes 6 and adds two reasons on account of the user agent alone; the
  one other check that reads the user agent, for the Sec-Fetch headers, finds nothing
  (the lower case of the empty string being empty); and a request that goes through the
  checks has the score \<open>-6\<close> plus what the other checks give.
\<close>

theorem empty_user_agent_penalties:
  assumes "Header r ''User-Agent'' = ''''"
  shows "uaMarker L (Header r ''User-Agent'') a = (fst a - 2, snd a @ [''ua_suspicious'']) \<and>
         headless (Header r ''User-Agent'') a = (fst a - 4, snd a @ [''headless_or_scripted_ua'']) \<and>
         headless (Header r ''User-Agent'') (referer r (uaMarker L (Header r ''User-Agent'') a)) =
           (fst a - 6 + fst (referer r (0, [])),
            snd a @ [''ua_suspicious''] @ snd (referer r (0, [])) @ [''headless_or_scripted_ua'']) \<and>
         (ToLower L '''' = '''' \<longrightarrow> secFetch L r (Header r ''User-Agent'') a = a) \<and>
         (noEarlyReturn L c r \<longrightarrow>
            score (CheckRequest L c r now) =
              - 6 +
              (fst (rateLimit c (recentHits c now (rateMap c (clientIP L r))) (0, [])) +
               fst (timestamp r now (0, [])) +
               fst (jsToken r (0, [])) +
               fst (behavior L r (0, [])) +
               fst (referer r (0, [])) +
               fst (acceptHeaders r (0, [])) +
               fst (secFetch L r '''' (0, [])) +
               fst (jsCookie r (0, [])) +
               fst (formContent L c r (0, []))) \<and>
            reasons (CheckRequest L c r now) =
              snd (rateLimit c (recentHits c now (rateMap c (clientIP L r))) (0, [])) @
              snd (timestamp r now (0, [])) @
              snd (jsToken r (0, [])) @
              snd (behavior L r (0, [])) @
              [''ua_suspicious''] @
              snd (referer r (0, [])) @
              [''headless_or_scripted_ua''] @
              snd (acceptHeaders r (0, [])) @
              snd (secFetch L r '''' (0, [])) @
              snd (jsCookie r (0, [])) @
              snd (formContent L c r (0, [])))"
proof -
  have u: "uaMarker L (Header r ''User-Agent'') b = (fst b - 2, snd b @ [''ua_suspicious''])" for b
    using assms by (simp add: uaMarker_def penalty_def)
  have h: "headless (Header r ''User-Agent'') b = (fst b - 4, snd b @ [''headless_or_scripted_ua''])"
    for b
    using assms by (simp add: headless_def penalty_def)
  have f: "referer r b = (fst b + fst (referer r (0, [])), snd b @ snd (referer r (0, [])))" for b
    by (rule referer_shift)
  have blk: "headless (Header r ''User-Agent'') (referer r (uaMarker L (Header r ''User-Agent'') a)) =
           (fst a - 6 + fst (referer r (0, [])),
            snd a @ [''ua_suspicious''] @ snd (referer r (0, [])) @ [''headless_or_scripted_ua''])"
    by (simp add: h u) (simp add: f [of "(fst a - 2, snd a @ [''ua_suspicious''])"])
  have sc: "score (CheckRequest L c r now) =
              - 6 +
              (fst (rateLimit c (recentHits c now (rateMap c (clientIP L r))) (0, [])) +
               fst (timestamp r now (0, [])) +
               fst (jsToken r (0, [])) +
               fst (behavior L r (0, [])) +
               fst (referer r (0, [])) +
               fst (acceptHeaders r (0, [])) +
               fst (secFetch L r '''' (0, [])) +
               fst (jsCookie r (0, [])) +
               fst (formContent L c r (0, []))) \<and>
            reasons (CheckRequest L c r now) =
              snd (rateLimit c (recentHits c now (rateMap c (clientIP L r))) (0, [])) @
              snd (timestamp r now (0, [])) @
              snd (jsToken r (0, [])) @
              snd (behavior L r (0, [])) @
              [''ua_suspicious''] @
              snd (referer r (0, [])) @
              [''headless_or_scripted_ua''] @
              snd (acceptHeaders r (0, [])) @
              snd (secFetch L r '''' (0, [])) @
              snd (jsCookie r (0, [])) @
              snd (formContent L c r (0, []))"
    if n: "noEarlyReturn L c r"
    using u [of "(0, [])"] h [of "(0, [])"] assms
    by (simp add: score_scored [OF n] reasons_scored [OF n] allChecks_sum)
  have sf: "secFetch L r (Header r ''User-Agent'') a = a" if "ToLower L '''' = ''''"
    using assms that by (simp add: secFetch_def)
  show ?thesis
    using u [of a] h [of a] blk sf sc by blast
qed

theorem empty_user_agent_penalties_witness:
  "Header noAgentRequest ''User-Agent'' = '''' \<and>
   noEarlyReturn testLib testEngine noAgentRequest \<and>
   score (CheckRequest testLib testEngine noAgentRequest testNow) = - 6 \<and>
   reasons (CheckRequest testLib testEngine noAgentRequest testNow) =
     [''ua_suspicious'', ''headless_or_scripted_ua'']"
proof -
  define h where "h = (Header (submission ''''))(''User-Agent'' := '''')"
  have r: "noAgentRequest = (submission '''')\<lparr>Header := h\<rparr>"
    by (simp add: noAgentRequest_def goodRequest_def h_def)
  have ua: "Header noAgentRequest ''User-Agent'' = ''''"
    by (simp add: r h_def)
  have fv: "FormValue noAgentRequest k = FormValue (submission '''') k" for k
    by (simp add: r FormValue_def)
  have "shouldBypass testLib testEngine noAgentRequest = (False, '''')"
    by (simp add: shouldBypass_def cfg_testEngine testConfig_def r h_def submission_def
        HasPrefix_def)
  then have n: "noEarlyReturn testLib testEngine noAgentRequest"
    by (simp add: noEarlyReturn_def latin_testEngine fv decoy_submission TrimSpace_empty)
       (simp add: r submission_def)
  have ip: "clientIP testLib noAgentRequest = ''203.0.113.7''"
    by (simp add: clientIP_def testLib_def r submission_def hostOf_def)
  have s2: "timestamp noAgentRequest testNow (0, []) = (0, [])"
    using timestamp_submission [of "''''" "(0, [])"] by (simp add: timestamp_def fv)
  have s3: "jsToken noAgentRequest (0, []) = (0, [])"
    using jsToken_submission [of "''''" "(0, [])"] by (simp add: jsToken_def fv)
  have s4: "behavior testLib noAgentRequest (0, []) = (0, [])"
    using behavior_submission [of "''''" "(0, [])"] by (simp add: behavior_def fv)
  have s6: "referer noAgentRequest (0, []) = (0, [])"
    by (simp add: referer_def r h_def submission_def HasPrefix_def)
  have s8: "acceptHeaders noAgentRequest (0, []) = (0, [])"
    by (simp add: acceptHeaders_def r h_def submission_def)
  have s9: "secFetch testLib noAgentRequest '''' (0, []) = (0, [])"
    by (simp add: secFetch_def testLib_def)
  have s10: "jsCookie noAgentRequest (0, []) = (0, [])"
    by (simp add: jsCookie_def r submission_def)
  have "classify testLib noAgentRequest = classify testLib (submission '''')"
    by (intro ext) (simp add: classify_def fv)
  then have "analyzeFormContent testLib testEngine noAgentRequest =
             analyzeFormContent testLib testEngine (submission '''')"
    by (simp add: analyzeFormContent_def r)
  then have s11: "formContent testLib testEngine noAgentRequest (0, []) = (0, [])"
    by (simp add: formContent_def content_submission)
  have s1: "rateLimit testEngine (recentHits testEngine testNow
              (rateMap testEngine (clientIP testLib noAgentRequest))) (0, []) = (0, [])"
    by (simp add: ip rateMap_testEngine rate_first)
  from empty_user_agent_penalties [OF ua, of testLib "(0, [])" testEngine testNow] n
  have "score (CheckRequest testLib testEngine noAgentRequest testNow) = - 6 \<and>
        reasons (CheckRequest testLib testEngine noAgentRequest testNow) =
          [''ua_suspicious'', ''headless_or_scripted_ua'']"
    by (simp add: s1 s2 s3 s4 s6 s8 s9 s10 s11)
  with ua n show ?thesis
    by simp
qed

end
